theory Spec2Isabelle
  imports Main "HOL-Library.Sublist"
begin

section \<open>Python strings\<close>

text \<open>
  The flowchart agent (\<^verbatim>\<open>src/agents/flowchart_agent.py\<close>) is string processing throughout.
  A Python \<^verbatim>\<open>str\<close> is modelled as a \<^typ>\<open>string\<close>, each \<^typ>\<open>char\<close> standing for the Unicode
  code point of its number, so the model covers the strings whose code points are below 256.
  The character classes below are Python's on that range: \<^verbatim>\<open>str.isspace\<close> (which is also the
  regular expression class \<^verbatim>\<open>\s\<close>), \<^verbatim>\<open>str.isalnum\<close> (with the underscore, the class \<^verbatim>\<open>\w\<close>) and
  \<^verbatim>\<open>str.lower\<close>.
\<close>

definition cp :: "char \<Rightarrow> nat" where
  "cp c = of_char c"

definition is_space :: "char \<Rightarrow> bool" where
  "is_space c = (let n = cp c in (9 \<le> n \<and> n \<le> 13) \<or> (28 \<le> n \<and> n \<le> 32) \<or> n = 133 \<or> n = 160)"

definition is_ascii_alnum :: "char \<Rightarrow> bool" where
  "is_ascii_alnum c = (let n = cp c in (48 \<le> n \<and> n \<le> 57) \<or> (65 \<le> n \<and> n \<le> 90) \<or> (97 \<le> n \<and> n \<le> 122))"

definition is_alnum :: "char \<Rightarrow> bool" where
  "is_alnum c = (let n = cp c in is_ascii_alnum c \<or> n = 170 \<or> n = 178 \<or> n = 179 \<or> n = 181 \<or>
     (185 \<le> n \<and> n \<le> 186) \<or> (188 \<le> n \<and> n \<le> 190) \<or> (192 \<le> n \<and> n \<le> 214) \<or>
     (216 \<le> n \<and> n \<le> 246) \<or> 248 \<le> n)"

definition is_word :: "char \<Rightarrow> bool" where
  "is_word c = (is_alnum c \<or> c = CHR ''_'')"

text \<open>The class \<^verbatim>\<open>[a-zA-Z0-9_]\<close> of node identifiers.\<close>

definition is_id_char :: "char \<Rightarrow> bool" where
  "is_id_char c = (is_ascii_alnum c \<or> c = CHR ''_'')"

definition lower_char :: "char \<Rightarrow> char" where
  "lower_char c = (let n = cp c in
     if (65 \<le> n \<and> n \<le> 90) \<or> (192 \<le> n \<and> n \<le> 214) \<or> (216 \<le> n \<and> n \<le> 222)
     then char_of (n + 32) else c)"

definition lower :: "string \<Rightarrow> string" where
  "lower s = map lower_char s"

definition nl :: char where
  "nl = CHR 0x0A"

definition tab :: char where
  "tab = CHR 0x09"

text \<open>\<^verbatim>\<open>s.strip()\<close>, \<^verbatim>\<open>s.lstrip()\<close>, \<^verbatim>\<open>s.lstrip(chars)\<close>, \<^verbatim>\<open>s.rstrip(chars)\<close>.\<close>

definition lstrip :: "string \<Rightarrow> string" where
  "lstrip s = dropWhile is_space s"

definition rstrip :: "string \<Rightarrow> string" where
  "rstrip s = rev (dropWhile is_space (rev s))"

definition strip :: "string \<Rightarrow> string" where
  "strip s = rstrip (lstrip s)"

definition lstrip_chars :: "string \<Rightarrow> string \<Rightarrow> string" where
  "lstrip_chars chars s = dropWhile (\<lambda>c. c \<in> set chars) s"

definition rstrip_chars :: "string \<Rightarrow> string \<Rightarrow> string" where
  "rstrip_chars chars s = rev (dropWhile (\<lambda>c. c \<in> set chars) (rev s))"

text \<open>\<^verbatim>\<open>s.startswith(p)\<close> is \<^const>\<open>prefix\<close>; \<^verbatim>\<open>sub in s\<close> and \<^verbatim>\<open>s.find(sub)\<close>
  (\<^const>\<open>None\<close> for Python's \<^verbatim>\<open>-1\<close>):\<close>

fun contains :: "string \<Rightarrow> string \<Rightarrow> bool" where
  "contains sub [] = (sub = [])"
| "contains sub (c # cs) = (if prefix sub (c # cs) then True else contains sub cs)"

fun find_str :: "string \<Rightarrow> string \<Rightarrow> nat option" where
  "find_str sub [] = (if sub = [] then Some 0 else None)"
| "find_str sub (c # cs) = (if prefix sub (c # cs) then Some 0 else map_option Suc (find_str sub cs))"

text \<open>\<^verbatim>\<open>s.split(sep)\<close> for a one-character separator (the agent splits documents at
  line feeds), for any non-empty separator, and with \<^verbatim>\<open>maxsplit = 1\<close>; \<^verbatim>\<open>sep.join(xs)\<close>.\<close>

fun split_char :: "char \<Rightarrow> string \<Rightarrow> string list" where
  "split_char d [] = [[]]"
| "split_char d (c # cs) =
     (if c = d then [] # split_char d cs
      else (case split_char d cs of [] \<Rightarrow> [[c]] | x # xs \<Rightarrow> (c # x) # xs))"

function split_str :: "string \<Rightarrow> string \<Rightarrow> string list" where
  "split_str sep s =
     (if sep = [] \<or> s = [] then [s]
      else (case find_str sep s of
              None \<Rightarrow> [s]
            | Some i \<Rightarrow> take i s # split_str sep (drop (i + length sep) s)))"
  by pat_completeness auto
termination
  by (relation "measure (\<lambda>(sep, s). length s)") auto

declare split_str.simps [simp del]

definition split1 :: "string \<Rightarrow> string \<Rightarrow> string list" where
  "split1 sep s =
     (case find_str sep s of
        None \<Rightarrow> [s]
      | Some i \<Rightarrow> [take i s, drop (i + length sep) s])"

fun join :: "string \<Rightarrow> string list \<Rightarrow> string" where
  "join sep [] = []"
| "join sep [x] = x"
| "join sep (x # y # ys) = x @ sep @ join sep (y # ys)"

text \<open>\<^verbatim>\<open>s.split(None, 1)\<close>: at most one split, at the first run of whitespace.\<close>

definition split_ws1 :: "string \<Rightarrow> string list" where
  "split_ws1 s =
     (let s1 = lstrip s in
      if s1 = [] then []
      else (let w = takeWhile (\<lambda>c. \<not> is_space c) s1;
                r = lstrip (dropWhile (\<lambda>c. \<not> is_space c) s1)
            in if r = [] then [w] else [w, r]))"

text \<open>\<^verbatim>\<open>s.replace(old, new)\<close> for a non-empty \<^verbatim>\<open>old\<close>, and \<^verbatim>\<open>s.count(c)\<close> for a character.\<close>

function replace :: "string \<Rightarrow> string \<Rightarrow> string \<Rightarrow> string" where
  "replace old new s =
     (if old = [] \<or> s = [] then s
      else if prefix old s then new @ replace old new (drop (length old) s)
      else hd s # replace old new (tl s))"
  by pat_completeness auto
termination
  by (relation "measure (\<lambda>(old, new, s). length s)") auto

declare replace.simps [simp del]

definition count_char :: "char \<Rightarrow> string \<Rightarrow> nat" where
  "count_char c s = length (filter (\<lambda>x. x = c) s)"

text \<open>\<^verbatim>\<open>str(n)\<close> for a natural number, and \<^verbatim>\<open>enumerate\<close>.\<close>

definition digit_char :: "nat \<Rightarrow> char" where
  "digit_char d = char_of (48 + d)"

fun str_nat :: "nat \<Rightarrow> string" where
  "str_nat n = (if n < 10 then [digit_char n] else str_nat (n div 10) @ [digit_char (n mod 10)])"

declare str_nat.simps [simp del]

definition enumerate_from :: "nat \<Rightarrow> 'a list \<Rightarrow> (nat \<times> 'a) list" where
  "enumerate_from k xs = zip [k..<k + length xs] xs"

section \<open>The heuristic validator\<close>

text \<open>\<^verbatim>\<open>_validate_mermaid\<close>: the minimum thresholds a diagram has to meet.\<close>

definition countable_line :: "string \<Rightarrow> bool" where
  "countable_line l = (strip l \<noteq> [] \<and> \<not> prefix ''%%'' (strip l))"

definition node_like :: "string \<Rightarrow> bool" where
  "node_like line = (contains ''-->'' line \<or> (CHR ''['' \<in> set line \<and> CHR '']'' \<in> set line) \<or>
     (CHR ''{'' \<in> set line \<and> CHR ''}'' \<in> set line))"

definition validate_mermaid :: "string \<Rightarrow> bool" where
  "validate_mermaid code =
     (if code = [] \<or> length (strip code) < 10 then False
      else if \<not> prefix ''flowchart'' (strip code) then False
      else if \<not> contains ''-->'' code then False
      else (let lines = filter countable_line (split_char nl code) in
            if length lines < 3 then False
            else (let node_count = length (filter node_like lines) in
                  if node_count < 2 then False else True)))"

section \<open>The fallback generator\<close>

definition notification_template :: string where
  "notification_template =
     ''flowchart TD\<newline>'' @
     ''    Start[User Action in Discord Mobile App] --> CheckOnline{User Online?}\<newline>'' @
     ''    CheckOnline -->|Yes| CheckSettings{Notification Settings Enabled?}\<newline>'' @
     ''    CheckOnline -->|No| QueueNotification[Queue Notification]\<newline>'' @
     ''    CheckSettings -->|No| End1[End - No Notification]\<newline>'' @
     ''    CheckSettings -->|Yes| CheckPermission{Push Permission Granted?}\<newline>'' @
     ''    CheckPermission -->|No| RequestPermission[Request Push Permission]\<newline>'' @
     ''    RequestPermission --> CheckPermission\<newline>'' @
     ''    CheckPermission -->|Yes| DetermineType{Determine Notification Type}\<newline>'' @
     ''    DetermineType -->|Message| MessageNotif[Message Notification]\<newline>'' @
     ''    DetermineType -->|Mention| MentionNotif[Mention Notification]\<newline>'' @
     ''    DetermineType -->|DM| DMNotif[Direct Message Notification]\<newline>'' @
     ''    DetermineType -->|Server| ServerNotif[Server Event Notification]\<newline>'' @
     ''    MessageNotif --> CheckQuietHours{Quiet Hours Active?}\<newline>'' @
     ''    MentionNotif --> CheckQuietHours\<newline>'' @
     ''    DMNotif --> CheckQuietHours\<newline>'' @
     ''    ServerNotif --> CheckQuietHours\<newline>'' @
     ''    CheckQuietHours -->|Yes| QueueNotification\<newline>'' @
     ''    CheckQuietHours -->|No| FormatNotification[Format Notification Content]\<newline>'' @
     ''    FormatNotification --> CheckDoNotDisturb{Do Not Disturb Active?}\<newline>'' @
     ''    CheckDoNotDisturb -->|Yes| QueueNotification\<newline>'' @
     ''    CheckDoNotDisturb -->|No| SendPush[Send Push Notification via FCM/APNS]\<newline>'' @
     ''    SendPush --> DeviceReceive[Device Receives Notification]\<newline>'' @
     ''    DeviceReceive --> DisplayNotif[Display in Notification Center]\<newline>'' @
     ''    DisplayNotif --> UserInteracts{User Interacts?}\<newline>'' @
     ''    UserInteracts -->|Tap| OpenApp[Open Discord App]\<newline>'' @
     ''    UserInteracts -->|Dismiss| Dismiss[Notification Dismissed]\<newline>'' @
     ''    UserInteracts -->|Swipe| SwipeAction[Perform Swipe Action]\<newline>'' @
     ''    OpenApp --> NavigateToContent[Navigate to Relevant Content]\<newline>'' @
     ''    NavigateToContent --> MarkRead[Mark as Read]\<newline>'' @
     ''    MarkRead --> End2[End]\<newline>'' @
     ''    Dismiss --> End2\<newline>'' @
     ''    SwipeAction --> End2\<newline>'' @
     ''    QueueNotification --> CheckOnline\<newline>'' @
     ''    End1 --> EndFinal[End]\<newline>'' @
     ''    End2 --> EndFinal''"

definition login_template :: string where
  "login_template =
     ''flowchart TD\<newline>'' @
     ''    A[Start] --> B[Enter Credentials]\<newline>'' @
     ''    B --> C{Valid Credentials?}\<newline>'' @
     ''    C -->|Yes| D[Create Session]\<newline>'' @
     ''    C -->|No| E[Show Error]\<newline>'' @
     ''    E --> B\<newline>'' @
     ''    D --> F[Redirect to Dashboard]\<newline>'' @
     ''    F --> G[End]''"

text \<open>
  The steps of the generic path: the loop over \<^verbatim>\<open>description.split('\n')\<close> appends at most
  one step per line. The source strips the characters \<^verbatim>\<open>-*123456789. \<close> and the bullet U+2022
  from the left; the bullet is no code point of the model's strings and is left out of the set.
\<close>

definition fallback_step_of_line :: "string \<Rightarrow> string list" where
  "fallback_step_of_line line0 =
     (let line = strip line0 in
      if line \<noteq> [] \<and> \<not> prefix ''#'' line
      then (let line2 = lstrip_chars ''-*123456789. '' line in
            if line2 \<noteq> [] then [take 50 line2] else [])
      else [])"

definition fallback_steps :: "string \<Rightarrow> string list" where
  "fallback_steps description = concat (map fallback_step_of_line (split_char nl description))"

definition clean_step :: "string \<Rightarrow> string" where
  "clean_step step = replace [CHR 0x22] [CHR 0x27] (replace '']'' [] (replace ''['' [] step))"

definition chr :: "nat \<Rightarrow> char" where
  "chr n = char_of n"

definition fallback_node :: "nat \<times> string \<Rightarrow> string" where
  "fallback_node p = (case p of (i, step) \<Rightarrow> ''    '' @ [chr (65 + i)] @ ''['' @ clean_step step @ '']'')"

definition fallback_connection :: "nat \<times> string \<Rightarrow> string list" where
  "fallback_connection p =
     (case p of (i, step) \<Rightarrow>
        if i > 0 then [''    '' @ [chr (65 + i - 1)] @ '' --> '' @ [chr (65 + i)]] else [])"

definition mentions_notification :: "string \<Rightarrow> bool" where
  "mentions_notification desc_lower =
     (contains ''notification'' desc_lower \<and>
      (contains ''discord'' desc_lower \<or> contains ''mobile'' desc_lower \<or> contains ''app'' desc_lower))"

definition mentions_login :: "string \<Rightarrow> bool" where
  "mentions_login desc_lower = (contains ''login'' desc_lower \<or> contains ''auth'' desc_lower)"

definition generate_fallback_flowchart :: "string \<Rightarrow> string" where
  "generate_fallback_flowchart description =
     (let desc_lower = lower description in
      if mentions_notification desc_lower then notification_template
      else if mentions_login desc_lower then login_template
      else (let steps0 = fallback_steps description;
                steps = (if steps0 = [] then [''Start'', take 40 description, ''Process'', ''End'']
                         else steps0);
                indexed = enumerate_from 0 (take 8 steps);
                nodes = map fallback_node indexed;
                connections = concat (map fallback_connection indexed)
            in ''flowchart TD\<newline>'' @ join [nl] nodes @ [nl] @ join [nl] connections))"

section \<open>Regular expressions\<close>

text \<open>
  The agent's patterns, as Python's \<^verbatim>\<open>re\<close> module matches them: a backtracking matcher in
  continuation-passing style, which tries the alternatives in Python's order (the left
  branch of \<^verbatim>\<open>|\<close> first, the longest repetition first for \<^verbatim>\<open>*\<close> and \<^verbatim>\<open>+\<close>, the shortest
  first for \<^verbatim>\<open>*?\<close> and \<^verbatim>\<open>+?\<close>) and returns the first way to match. A match state holds
  the text before the position (reversed), the text from the position on, and the groups
  closed so far, the latest first.
\<close>

datatype regex =
    Chr "char \<Rightarrow> bool"
  | Eps
  | Seq regex regex
  | Alt regex regex
  | Star regex
  | LazyStar regex
  | Group nat regex
  | Bol
  | Eol
  | WordB

record mstate =
  prev :: string
  rest :: string
  groups :: "(nat \<times> string) list"

definition advance :: "mstate \<Rightarrow> mstate" where
  "advance st = st\<lparr>prev := hd (rest st) # prev st, rest := tl (rest st)\<rparr>"

definition close_group :: "nat \<Rightarrow> mstate \<Rightarrow> mstate \<Rightarrow> mstate" where
  "close_group n st st' =
     st'\<lparr>groups := (n, take (length (rest st) - length (rest st')) (rest st)) # groups st'\<rparr>"

definition at_word_boundary :: "mstate \<Rightarrow> bool" where
  "at_word_boundary st =
     ((case prev st of [] \<Rightarrow> False | c # cs \<Rightarrow> is_word c) \<noteq>
      (case rest st of [] \<Rightarrow> False | c # cs \<Rightarrow> is_word c))"

text \<open>A repetition gives up an iteration that consumes nothing.\<close>

primrec star_greedy ::
  "nat \<Rightarrow> ((mstate \<Rightarrow> mstate option) \<Rightarrow> mstate \<Rightarrow> mstate option) \<Rightarrow>
   (mstate \<Rightarrow> mstate option) \<Rightarrow> mstate \<Rightarrow> mstate option" where
  "star_greedy 0 f k st = k st"
| "star_greedy (Suc n) f k st =
     (case f (\<lambda>st'. if length (rest st') < length (rest st) then star_greedy n f k st' else None) st of
        Some m \<Rightarrow> Some m
      | None \<Rightarrow> k st)"

primrec star_lazy ::
  "nat \<Rightarrow> ((mstate \<Rightarrow> mstate option) \<Rightarrow> mstate \<Rightarrow> mstate option) \<Rightarrow>
   (mstate \<Rightarrow> mstate option) \<Rightarrow> mstate \<Rightarrow> mstate option" where
  "star_lazy 0 f k st = k st"
| "star_lazy (Suc n) f k st =
     (case k st of
        Some m \<Rightarrow> Some m
      | None \<Rightarrow> f (\<lambda>st'. if length (rest st') < length (rest st) then star_lazy n f k st' else None) st)"

primrec mk :: "regex \<Rightarrow> (mstate \<Rightarrow> mstate option) \<Rightarrow> mstate \<Rightarrow> mstate option" where
  "mk (Chr P) k st = (if rest st \<noteq> [] \<and> P (hd (rest st)) then k (advance st) else None)"
| "mk Eps k st = k st"
| "mk (Seq a b) k st = mk a (mk b k) st"
| "mk (Alt a b) k st = (case mk a k st of Some m \<Rightarrow> Some m | None \<Rightarrow> mk b k st)"
| "mk (Star a) k st = star_greedy (length (rest st)) (mk a) k st"
| "mk (LazyStar a) k st = star_lazy (length (rest st)) (mk a) k st"
| "mk (Group n a) k st = mk a (\<lambda>st'. k (close_group n st st')) st"
| "mk Bol k st = (if prev st = [] then k st else None)"
| "mk Eol k st = (if rest st = [] \<or> rest st = [nl] then k st else None)"
| "mk WordB k st = (if at_word_boundary st then k st else None)"

text \<open>Pattern syntax: \<^verbatim>\<open>r+\<close>, \<^verbatim>\<open>r+?\<close>, a literal character, a literal string, a character set,
  its complement, \<^verbatim>\<open>\s\<close>, \<^verbatim>\<open>.\<close>, and a literal under \<^verbatim>\<open>re.IGNORECASE\<close>.\<close>

definition Plus :: "regex \<Rightarrow> regex" where
  "Plus r = Seq r (Star r)"

definition LazyPlus :: "regex \<Rightarrow> regex" where
  "LazyPlus r = Seq r (LazyStar r)"

definition ch :: "char \<Rightarrow> regex" where
  "ch c = Chr (\<lambda>x. x = c)"

definition lit :: "string \<Rightarrow> regex" where
  "lit s = foldr (\<lambda>c r. Seq (ch c) r) s Eps"

definition one_of :: "string \<Rightarrow> regex" where
  "one_of cs = Chr (\<lambda>x. x \<in> set cs)"

definition ws :: regex where
  "ws = Chr is_space"

definition dot :: regex where
  "dot = Chr (\<lambda>x. x \<noteq> nl)"

definition lit_ci :: "string \<Rightarrow> regex" where
  "lit_ci s = foldr (\<lambda>c r. Seq (Chr (\<lambda>x. lower_char x = lower_char c)) r) s Eps"

definition seqs :: "regex list \<Rightarrow> regex" where
  "seqs rs = foldr Seq rs Eps"

definition alts :: "regex \<Rightarrow> regex list \<Rightarrow> regex" where
  "alts r rs = foldr (\<lambda>a b. Alt a b) (butlast (r # rs)) (last (r # rs))"

text \<open>\<^verbatim>\<open>re.match\<close>, \<^verbatim>\<open>re.search\<close> and \<^verbatim>\<open>re.sub\<close>. The replacement of \<^verbatim>\<open>re.sub\<close> is a function
  of the match, for a callable and for a template alike. \<^verbatim>\<open>m.group(n)\<close> of a group that
  took no part in the match is the empty string in a template.\<close>

definition start_state :: "string \<Rightarrow> string \<Rightarrow> mstate" where
  "start_state bef s = \<lparr>prev = bef, rest = s, groups = []\<rparr>"

definition match_at :: "regex \<Rightarrow> string \<Rightarrow> string \<Rightarrow> mstate option" where
  "match_at r bef s = mk r Some (start_state bef s)"

definition re_match :: "regex \<Rightarrow> string \<Rightarrow> mstate option" where
  "re_match r s = match_at r [] s"

fun search_from :: "regex \<Rightarrow> string \<Rightarrow> string \<Rightarrow> mstate option" where
  "search_from r bef [] = match_at r bef []"
| "search_from r bef (c # cs) =
     (case match_at r bef (c # cs) of
        Some m \<Rightarrow> Some m
      | None \<Rightarrow> search_from r (c # bef) cs)"

definition re_search :: "regex \<Rightarrow> string \<Rightarrow> mstate option" where
  "re_search r s = search_from r [] s"

definition group :: "mstate \<Rightarrow> nat \<Rightarrow> string" where
  "group m n = (case map_of (groups m) n of None \<Rightarrow> [] | Some g \<Rightarrow> g)"

text \<open>The scan of \<^verbatim>\<open>re.sub\<close>: \<open>skip\<close> counts the characters of the last match that are
  still to be passed over; an empty match is replaced and the character after it copied.\<close>

fun sub_scan :: "regex \<Rightarrow> (mstate \<Rightarrow> string) \<Rightarrow> string \<Rightarrow> string \<Rightarrow> nat \<Rightarrow> string" where
  "sub_scan r f bef [] skip =
     (if skip = 0 then (case match_at r bef [] of None \<Rightarrow> [] | Some m \<Rightarrow> f m) else [])"
| "sub_scan r f bef (c # cs) skip =
     (if skip > 0 then sub_scan r f (c # bef) cs (skip - 1)
      else (case match_at r bef (c # cs) of
              None \<Rightarrow> c # sub_scan r f (c # bef) cs 0
            | Some m \<Rightarrow>
                (let n = length (c # cs) - length (rest m) in
                 if n = 0 then f m @ c # sub_scan r f (c # bef) cs 0
                 else f m @ sub_scan r f (c # bef) cs (n - 1))))"

definition re_sub :: "regex \<Rightarrow> (mstate \<Rightarrow> string) \<Rightarrow> string \<Rightarrow> string" where
  "re_sub r f s = sub_scan r f [] s 0"

section \<open>The syntax check\<close>

text \<open>\<^verbatim>\<open>_check_syntax_errors\<close>: per line, the parity of each kind of bracket and, on lines
  with an arrow, the patterns \<^verbatim>\<open>\]\s*[^\s\-\|]\<close> and \<^verbatim>\<open>\}\s*[^\s\-\|]\<close>. A line contributes
  its errors in the order of the checks.\<close>

definition not_space_dash_pipe :: "char \<Rightarrow> bool" where
  "not_space_dash_pipe x = (\<not> (is_space x \<or> x = CHR ''-'' \<or> x = CHR ''|''))"

definition after_close :: "char \<Rightarrow> regex" where
  "after_close c = seqs [ch c, Star ws, Chr not_space_dash_pipe]"

definition line_error :: "nat \<Rightarrow> string \<Rightarrow> string" where
  "line_error i msg = ''Line '' @ str_nat i @ '': '' @ msg"

definition line_errors :: "nat \<times> string \<Rightarrow> string list" where
  "line_errors p =
     (case p of (i, line0) \<Rightarrow>
        (let line = strip line0 in
         if line = [] \<or> prefix ''flowchart'' line \<or> prefix ''%%'' line then []
         else
           (if count_char (CHR ''['') line = count_char (CHR '']'') line then []
            else [line_error i ''Unmatched square brackets'']) @
           (if count_char (CHR ''{'') line = count_char (CHR ''}'') line then []
            else [line_error i ''Unmatched curly braces'']) @
           (if count_char (CHR ''('') line = count_char (CHR '')'') line then []
            else [line_error i ''Unmatched parentheses'']) @
           (if contains ''-->'' line
            then (case re_search (after_close (CHR '']'')) line of
                    None \<Rightarrow> []
                  | Some m \<Rightarrow> [line_error i ''Invalid character after closing bracket'']) @
                 (case re_search (after_close (CHR ''}'')) line of
                    None \<Rightarrow> []
                  | Some m \<Rightarrow> [line_error i ''Invalid character after closing brace''])
            else [])))"

definition check_syntax_errors :: "string \<Rightarrow> string list" where
  "check_syntax_errors code = concat (map line_errors (enumerate_from 1 (split_char nl code)))"

section \<open>The node and label sanitizer\<close>

text \<open>\<^verbatim>\<open>clean_label\<close>, \<^verbatim>\<open>extract_node_id\<close> and \<^verbatim>\<open>sanitize_node\<close>, the local functions of
  \<^verbatim>\<open>_sanitize_mermaid\<close>. The set \<^verbatim>\<open>seen_nodes\<close> of the source is created empty and never
  added to.\<close>

definition dq :: char where
  "dq = CHR 0x22"

definition sq :: char where
  "sq = CHR 0x27"

definition dash :: regex where
  "dash = ch (CHR ''-'')"

definition clean_label :: "string \<Rightarrow> string" where
  "clean_label text0 =
     (if text0 = [] then text0
      else (let text1 = replace [dq] [sq] text0;
                text2 = replace ''`'' [sq] text1;
                text3 = re_sub (seqs [Star ws, dash, Star ws, dash]) (\<lambda>m. ''-'') text2;
                text4 = re_sub (seqs [Star ws, dash, Star ws, Eol]) (\<lambda>m. []) text3;
                text5 = re_sub (seqs [Bol, Star ws, dash, Star ws]) (\<lambda>m. []) text4;
                text6 = rstrip_chars ''.,;:'' text5;
                text7 = re_sub (Plus ws) (\<lambda>m. '' '') text6;
                text8 = strip text7
            in if text8 = [] then ''Label'' else text8))"

definition id_pat :: regex where
  "id_pat = seqs [Bol, Group 1 (Plus (Chr is_id_char))]"

definition seen_nodes :: "string list" where
  "seen_nodes = []"

definition extract_node_id :: "string \<Rightarrow> string" where
  "extract_node_id node_str =
     (case re_match id_pat (strip node_str) of
        Some m \<Rightarrow> group m 1
      | None \<Rightarrow> ''node'' @ str_nat (length seen_nodes))"

text \<open>The allow-lists \<^verbatim>\<open>[^\w\s\-\'\(\)]\<close> and, for diamonds, \<^verbatim>\<open>[^\w\s\-\'\(\)?]\<close>: the
  characters that are removed from a label.\<close>

definition not_allowed :: "string \<Rightarrow> char \<Rightarrow> bool" where
  "not_allowed extra x = (\<not> (is_word x \<or> is_space x \<or> x \<in> set (''-()'' @ [sq] @ extra)))"

definition strip_not_allowed :: "string \<Rightarrow> string \<Rightarrow> string" where
  "strip_not_allowed extra label = re_sub (Chr (not_allowed extra)) (\<lambda>m. []) label"

text \<open>The loop that looks for the closing bracket of the first opening one, counting the
  nesting depth: the index of the match, or \<^const>\<open>None\<close> where the source keeps \<^verbatim>\<open>-1\<close>.\<close>

fun scan_close :: "char \<Rightarrow> char \<Rightarrow> string \<Rightarrow> int \<Rightarrow> nat \<Rightarrow> nat option" where
  "scan_close opn cls [] depth i = None"
| "scan_close opn cls (c # cs) depth i =
     (if c = opn then scan_close opn cls cs (depth + 1) (i + 1)
      else if c = cls then (if depth - 1 = 0 then Some i else scan_close opn cls cs (depth - 1) (i + 1))
      else scan_close opn cls cs depth (i + 1))"

text \<open>The three branches of \<^verbatim>\<open>sanitize_node\<close> (rectangle, diamond, rounded) are the same
  code up to the pair of brackets and the allow-list; \<open>sanitize_shape\<close> is that code.\<close>

definition unmatched_label :: "char \<Rightarrow> string \<Rightarrow> string" where
  "unmatched_label cls label_part =
     (let label = (if contains ''-->'' label_part then strip (hd (split_str ''-->'' label_part))
                   else strip label_part)
      in if cls \<in> set label then hd (split_char cls label) else label)"

definition sanitize_shape :: "char \<Rightarrow> char \<Rightarrow> string \<Rightarrow> string \<Rightarrow> string \<Rightarrow> string" where
  "sanitize_shape opn cls extra node_id node_str =
     (let bracket_start = (case find_str [opn] node_str of None \<Rightarrow> 0 | Some i \<Rightarrow> i);
          bracket_end = scan_close opn cls (drop bracket_start node_str) 0 bracket_start
      in case (case bracket_end of
                 None \<Rightarrow> None
               | Some e \<Rightarrow> if e > bracket_start then Some e else None) of
           Some e \<Rightarrow>
             (let label = take (e - (bracket_start + 1)) (drop (bracket_start + 1) node_str)
              in node_id @ [opn] @ strip_not_allowed extra (clean_label label) @ [cls])
         | None \<Rightarrow>
             (case split1 [opn] node_str of
                [p0, label_part] \<Rightarrow>
                  node_id @ [opn] @
                  strip_not_allowed extra (clean_label (unmatched_label cls label_part)) @ [cls]
              | _ \<Rightarrow> node_str))"

definition sanitize_node :: "string \<Rightarrow> string" where
  "sanitize_node node_str0 =
     (let node_str = strip node_str0 in
      if node_str = [] then []
      else (let node_id = extract_node_id node_str in
            if CHR ''['' \<in> set node_str then sanitize_shape (CHR ''['') (CHR '']'') [] node_id node_str
            else if CHR ''{'' \<in> set node_str then sanitize_shape (CHR ''{'') (CHR ''}'') ''?'' node_id node_str
            else if CHR ''('' \<in> set node_str then sanitize_shape (CHR ''('') (CHR '')'') [] node_id node_str
            else (case re_match id_pat node_str of
                    Some m \<Rightarrow> group m 1
                  | None \<Rightarrow> node_id)))"

text \<open>The loop of \<^verbatim>\<open>_sanitize_mermaid\<close> appends at most one line per input line.\<close>

definition fix_arrows :: "string \<Rightarrow> string" where
  "fix_arrows line =
     re_sub (lit ''->'') (\<lambda>m. ''-->'')
       (re_sub (seqs [dash, Star ws, lit ''->'']) (\<lambda>m. ''-->'')
          (re_sub (seqs [lit ''--'', Star ws, ch (CHR ''>'')]) (\<lambda>m. ''-->'') line))"

definition labeled_pat :: regex where
  "labeled_pat =
     seqs [Bol, Group 1 (LazyPlus dot), Star ws, lit ''-->'', Star ws, ch (CHR ''|''), Star ws,
           Group 2 (LazyPlus dot), Star ws, ch (CHR ''|''), Star ws, Group 3 (Plus dot), Eol]"

definition sanitize_line :: "string \<Rightarrow> string list" where
  "sanitize_line line0 =
     (let line1 = strip line0 in
      if line1 = [] \<or> prefix ''%%'' line1 then []
      else if prefix ''flowchart'' line1 then [line1]
      else (let line = fix_arrows line1 in
            if contains ''-->'' line
            then (case re_match labeled_pat line of
                    Some m \<Rightarrow>
                      (let left = strip (group m 1);
                           label = clean_label (group m 2);
                           right = sanitize_node (strip (group m 3));
                           left_node = sanitize_node left
                       in [''    '' @ left_node @ '' -->|'' @ label @ ''| '' @ right])
                  | None \<Rightarrow>
                      (case split_str ''-->'' line of
                         p0 # p1 # ps \<Rightarrow>
                           [''    '' @ sanitize_node (strip p0) @ '' --> '' @ sanitize_node (strip p1)]
                       | _ \<Rightarrow> []))
            else (let sanitized_node = sanitize_node line in
                  if sanitized_node = [] then [] else [''    '' @ sanitized_node])))"

definition sanitize_mermaid :: "string \<Rightarrow> string" where
  "sanitize_mermaid code = join [nl] (concat (map sanitize_line (split_char nl code)))"

section \<open>Wrapping labels that contain special characters\<close>

text \<open>\<^verbatim>\<open>_wrap_label_if_needed\<close>, \<^verbatim>\<open>_wrap_connection_label\<close> and \<^verbatim>\<open>_wrap_special_labels\<close>.\<close>

definition special_chars :: string where
  "special_chars = ''()[]{}:;,`'' @ [sq, dq]"

definition needs_quotes :: "string \<Rightarrow> bool" where
  "needs_quotes label =
     (case re_search (one_of special_chars) label of
        None \<Rightarrow> False
      | Some m \<Rightarrow> if prefix [dq] label \<and> suffix [dq] label then False else True)"

definition wrap_label_if_needed :: "string \<Rightarrow> string \<Rightarrow> char \<Rightarrow> string" where
  "wrap_label_if_needed node_id label bracket_type =
     (if needs_quotes label \<and> bracket_type = CHR ''['' then node_id @ ''['' @ [dq] @ label @ [dq] @ '']''
      else if needs_quotes label \<and> bracket_type = CHR ''{'' then node_id @ ''{'' @ [dq] @ label @ [dq] @ ''}''
      else if needs_quotes label \<and> bracket_type = CHR ''('' then node_id @ ''('' @ [dq] @ label @ [dq] @ '')''
      else if bracket_type = CHR ''['' then node_id @ ''['' @ label @ '']''
      else if bracket_type = CHR ''{'' then node_id @ ''{'' @ label @ ''}''
      else if bracket_type = CHR ''('' then node_id @ ''('' @ label @ '')''
      else node_id @ ''['' @ label @ '']'')"

definition wrap_connection_label :: "string \<Rightarrow> string \<Rightarrow> string \<Rightarrow> string" where
  "wrap_connection_label left label right =
     (if needs_quotes label then left @ '' -->|'' @ [dq] @ label @ [dq] @ ''| '' @ right
      else left @ '' -->|'' @ label @ ''| '' @ right)"

definition node_def_pat :: "char \<Rightarrow> char \<Rightarrow> regex" where
  "node_def_pat opn cls =
     seqs [Group 1 (Star ws), Group 2 (Plus (Chr is_id_char)), ch opn,
           Group 3 (Plus (Chr (\<lambda>x. x \<noteq> cls))), ch cls]"

definition connection_pat :: regex where
  "connection_pat =
     seqs [Group 1 (Star ws), Group 2 (LazyPlus dot), Star ws, lit ''-->'', Star ws, ch (CHR ''|''),
           Star ws, Group 3 (LazyPlus (Chr (\<lambda>x. x \<noteq> CHR ''|''))), Star ws, ch (CHR ''|''), Star ws,
           Group 4 (Plus dot)]"

definition wrap_nodes :: "char \<Rightarrow> char \<Rightarrow> string \<Rightarrow> string" where
  "wrap_nodes opn cls line =
     re_sub (node_def_pat opn cls)
       (\<lambda>m. group m 1 @ wrap_label_if_needed (group m 2) (group m 3) opn) line"

definition wrap_line :: "string \<Rightarrow> string" where
  "wrap_line original_line =
     (let line_stripped = strip original_line in
      if line_stripped = [] \<or> prefix ''flowchart'' line_stripped then original_line
      else (let line1 = wrap_nodes (CHR ''['') (CHR '']'') original_line;
                line2 = wrap_nodes (CHR ''{'') (CHR ''}'') line1;
                line3 = wrap_nodes (CHR ''('') (CHR '')'') line2
            in re_sub connection_pat
                 (\<lambda>m. group m 1 @ wrap_connection_label (group m 2) (group m 3) (group m 4)) line3))"

definition wrap_special_labels :: "string \<Rightarrow> string" where
  "wrap_special_labels code = join [nl] (map wrap_line (split_char nl code))"

section \<open>The final cleanup\<close>

text \<open>\<^verbatim>\<open>_final_cleanup\<close>. The character classes of its patterns: a closing bracket
  \<^verbatim>\<open>(\]|\}|\))\<close>, \<^verbatim>\<open>[^\s\-\|]\<close>, \<^verbatim>\<open>[^\s]\<close>, \<^verbatim>\<open>[\]\}]\<close> and \<^verbatim>\<open>[\s-]\<close>.\<close>

definition closer :: regex where
  "closer = alts (ch (CHR '']'')) [ch (CHR ''}''), ch (CHR '')'')]"

definition empty_label_pat :: "char \<Rightarrow> char \<Rightarrow> regex" where
  "empty_label_pat opn cls = seqs [ch opn, Plus (Chr (\<lambda>x. is_space x \<or> x = CHR ''-'')), ch cls]"

definition double_dash_pat :: "char \<Rightarrow> char \<Rightarrow> regex" where
  "double_dash_pat opn cls =
     seqs [ch opn, Group 1 (LazyStar (Chr (\<lambda>x. x \<noteq> cls))), Star ws, dash, Star ws, dash, Star ws,
           Group 2 (LazyStar (Chr (\<lambda>x. x \<noteq> cls))), ch cls]"

definition cleanup_left :: "string \<Rightarrow> string" where
  "cleanup_left left =
     re_sub (seqs [Group 1 closer, Group 2 (Chr not_space_dash_pipe)]) (\<lambda>m. group m 1)
       (re_sub (seqs [Group 1 closer, Plus ws, Chr not_space_dash_pipe]) (\<lambda>m. group m 1) left)"

definition cleanup_node :: "string \<Rightarrow> string" where
  "cleanup_node line =
     (let c1 = re_sub (seqs [Group 1 closer, Plus ws, Star dot, Eol]) (\<lambda>m. group m 1) line;
          c2 = re_sub (seqs [Group 1 closer, Group 2 (Seq (Chr not_space_dash_pipe) (Star dot)), Eol])
                 (\<lambda>m. group m 1) c1;
          c3 = re_sub (double_dash_pat (CHR ''['') (CHR '']''))
                 (\<lambda>m. ''['' @ group m 1 @ ''-'' @ group m 2 @ '']'') c2;
          c4 = re_sub (double_dash_pat (CHR ''{'') (CHR ''}''))
                 (\<lambda>m. ''{'' @ group m 1 @ ''-'' @ group m 2 @ ''}'') c3;
          c5 = re_sub (seqs [Group 1 (Chr (\<lambda>x. \<not> is_space x)), Star ws, dash, Star ws, dash, Star ws,
                             Group 2 (one_of '']}'')])
                 (\<lambda>m. group m 1 @ group m 2) c4;
          c6 = re_sub (seqs [Group 1 (Chr (\<lambda>x. \<not> is_space x)), Star ws, dash, Star ws,
                             Group 2 (one_of '']}'')])
                 (\<lambda>m. group m 1 @ group m 2) c5;
          c7 = re_sub (empty_label_pat (CHR ''['') (CHR '']'')) (\<lambda>m. ''[Label]'') c6
      in re_sub (empty_label_pat (CHR ''{'') (CHR ''}'')) (\<lambda>m. ''{Label}'') c7)"

definition cleanup_line :: "string \<Rightarrow> string" where
  "cleanup_line original_line =
     (let line = strip original_line in
      if line = [] \<or> prefix ''flowchart'' line then original_line
      else if contains ''-->'' line
      then (case split1 ''-->'' line of
              [p0, p1] \<Rightarrow> ''    '' @ cleanup_left (strip p0) @ '' --> '' @ strip p1
            | _ \<Rightarrow> ''    '' @ line)
      else ''    '' @ cleanup_node line)"

definition final_cleanup :: "string \<Rightarrow> string" where
  "final_cleanup code = join [nl] (map cleanup_line (split_char nl code))"

section \<open>Header and spacing normalization\<close>

text \<open>\<^verbatim>\<open>_normalize_flowchart_header\<close> rewrites the first line that starts with
  \<^verbatim>\<open>flowchart\<close>, and only that one (the loop breaks).\<close>

definition header_pat :: regex where
  "header_pat =
     seqs [Bol, Group 1 (seqs [lit_ci ''flowchart'', Plus ws,
       alts (lit_ci ''TD'') [lit_ci ''LR'', lit_ci ''TB'', lit_ci ''BT'', lit_ci ''RL'']])]"

definition clean_header :: "string \<Rightarrow> string" where
  "clean_header line_stripped =
     (case re_match header_pat line_stripped of
        Some m \<Rightarrow> group m 1
      | None \<Rightarrow> ''flowchart TD'')"

fun normalize_header_lines :: "string list \<Rightarrow> string list" where
  "normalize_header_lines [] = []"
| "normalize_header_lines (line # ls) =
     (if prefix ''flowchart'' (strip line) then clean_header (strip line) # ls
      else line # normalize_header_lines ls)"

definition normalize_flowchart_header :: "string \<Rightarrow> string" where
  "normalize_flowchart_header code = join [nl] (normalize_header_lines (split_char nl code))"

text \<open>\<^verbatim>\<open>_normalize_spacing\<close>, one output line per input line.\<close>

definition expand_tabs :: "string \<Rightarrow> string" where
  "expand_tabs line = replace [tab] ''    '' line"

definition spacing_line :: "string \<Rightarrow> string" where
  "spacing_line line0 =
     (let line = expand_tabs line0 in
      if prefix ''flowchart'' (strip line) then strip line
      else (let stripped = strip line in
            if stripped = [] then []
            else if prefix '' '' line
            then (let leading_spaces = length line - length (lstrip line);
                      normalized_indent0 = (leading_spaces div 4) * 4;
                      normalized_indent =
                        (if normalized_indent0 = 0 \<and> stripped \<noteq> [] \<and> \<not> prefix ''flowchart'' stripped
                         then 4 else normalized_indent0)
                  in replicate normalized_indent (CHR '' '') @ stripped)
            else (if stripped \<noteq> [] \<and> \<not> prefix ''flowchart'' stripped then ''    '' @ stripped
                  else stripped)))"

definition normalize_spacing :: "string \<Rightarrow> string" where
  "normalize_spacing code = join [nl] (map spacing_line (split_char nl code))"

section \<open>Exceptions\<close>

text \<open>An exception is a value: its class and the text \<^verbatim>\<open>str(exc)\<close>. \<open>Raised\<close> stands for
  whatever a collaborator (the text generation service, the file system, the rendering
  service) raises.\<close>

datatype exn =
    ValueError string
  | AttributeError string
  | TypeError string
  | ReError string
  | Raised string

fun exn_str :: "exn \<Rightarrow> string" where
  "exn_str (ValueError msg) = msg"
| "exn_str (AttributeError msg) = msg"
| "exn_str (TypeError msg) = msg"
| "exn_str (ReError msg) = msg"
| "exn_str (Raised msg) = msg"

section \<open>End-node normalization\<close>

text \<open>
  \<^verbatim>\<open>_normalize_end_nodes\<close>. The dictionaries \<^verbatim>\<open>end_node_counter\<close> and \<^verbatim>\<open>node_id_mapping\<close> are
  association lists in insertion order: assigning to a key that is present keeps its place.
\<close>

fun dict_set :: "'k \<Rightarrow> 'v \<Rightarrow> ('k \<times> 'v) list \<Rightarrow> ('k \<times> 'v) list" where
  "dict_set k v [] = [(k, v)]"
| "dict_set k v (p # ps) = (if fst p = k then (k, v) # ps else p # dict_set k v ps)"

definition normalize_end_label :: "string \<Rightarrow> string" where
  "normalize_end_label label =
     (if prefix ''end'' (lower label)
      then (if CHR '':'' \<in> set label then label
            else (case split_ws1 label of
                    p0 # p1 # ps \<Rightarrow> ''End: '' @ p1
                  | _ \<Rightarrow> ''End''))
      else label)"

definition get_unique_end_id ::
  "(string \<times> nat) list \<Rightarrow> string \<Rightarrow> string \<Rightarrow> (string \<times> string) \<times> (string \<times> nat) list" where
  "get_unique_end_id end_node_counter base_id label =
     (let normalized_label = normalize_end_label label in
      case map_of end_node_counter base_id of
        None \<Rightarrow> ((base_id, normalized_label), dict_set base_id 0 end_node_counter)
      | Some n \<Rightarrow>
          ((base_id @ ''_'' @ str_nat (n + 1), normalized_label),
           dict_set base_id (n + 1) end_node_counter))"

text \<open>The three patterns that recognise an end node at the start of a line, under
  \<^verbatim>\<open>re.IGNORECASE\<close>: an identifier, an opening bracket, a label that contains \<^verbatim>\<open>End\<close> and has no
  closing bracket in it, the closing bracket.\<close>

definition end_pat :: "char \<Rightarrow> char \<Rightarrow> regex" where
  "end_pat opn cls =
     seqs [Bol, Group 1 (Plus (Chr is_id_char)), ch opn,
           Group 2 (seqs [Star (Chr (\<lambda>x. x \<noteq> cls)), lit_ci ''End'', Star (Chr (\<lambda>x. x \<noteq> cls))]),
           ch cls]"

definition end_match :: "string \<Rightarrow> mstate option" where
  "end_match line_stripped =
     (case re_match (end_pat (CHR ''['') (CHR '']'')) line_stripped of
        Some m \<Rightarrow> Some m
      | None \<Rightarrow>
          (case re_match (end_pat (CHR ''{'') (CHR ''}'')) line_stripped of
             Some m \<Rightarrow> Some m
           | None \<Rightarrow> re_match (end_pat (CHR ''('') (CHR '')'')) line_stripped))"

text \<open>
  The pattern that rewrites the references to a remapped identifier,
  \<^verbatim>\<open>(^|\s|\[|\{|\()\bOLD\b(\s*-->|\s*\||\s*$|\]|\}|\))\<close>, and its replacement template, the
  string \<^verbatim>\<open>\1NEW\2\<close> built by interpolation. Python parses the template before it looks for a
  match: when \<^verbatim>\<open>NEW\<close> starts with a digit, the digit is read as part of the group number (a
  group from 10 to 19, which the pattern has not, so \<^verbatim>\<open>re.error\<close> is raised), or, when two octal
  digits follow \<^verbatim>\<open>\1\<close>, the three digits are read as the octal code of a character.
\<close>

definition reference_pat :: "string \<Rightarrow> regex" where
  "reference_pat old_id =
     seqs [Group 1 (alts Bol [ws, ch (CHR ''[''), ch (CHR ''{''), ch (CHR ''('')]),
           WordB, lit old_id, WordB,
           Group 2 (alts (Seq (Star ws) (lit ''-->''))
                      [Seq (Star ws) (ch (CHR ''|'')), Seq (Star ws) Eol,
                       ch (CHR '']''), ch (CHR ''}''), ch (CHR '')'')])]"

definition is_digit :: "char \<Rightarrow> bool" where
  "is_digit c = (48 \<le> cp c \<and> cp c \<le> 57)"

definition is_octdigit :: "char \<Rightarrow> bool" where
  "is_octdigit c = (48 \<le> cp c \<and> cp c \<le> 55)"

definition reference_template :: "string \<Rightarrow> exn + (mstate \<Rightarrow> string)" where
  "reference_template new_id =
     (case new_id of
        [] \<Rightarrow> Inr (\<lambda>m. group m 1 @ group m 2)
      | d1 # ds \<Rightarrow>
          if is_digit d1
          then (if is_octdigit d1 \<and> ds \<noteq> [] \<and> is_octdigit (hd ds)
                then Inr (\<lambda>m. [chr (64 + 8 * (cp d1 - 48) + (cp (hd ds) - 48))] @ tl ds @ group m 2)
                else Inl (ReError (''invalid group reference 1'' @ [d1] @ '' at position 1'')))
          else Inr (\<lambda>m. group m 1 @ new_id @ group m 2))"

fun rewrite_references :: "(string \<times> string) list \<Rightarrow> string \<Rightarrow> exn + string" where
  "rewrite_references [] line = Inr line"
| "rewrite_references ((old_id, new_id) # ms) line =
     (case reference_template new_id of
        Inl e \<Rightarrow> Inl e
      | Inr f \<Rightarrow> rewrite_references ms (re_sub (reference_pat old_id) f line))"

text \<open>\<^verbatim>\<open>sorted(items, key=lambda x: len(x[0]), reverse=True)\<close>: a stable sort, longest
  identifier first; items of equal length keep their order.\<close>

definition sorted_mappings :: "(string \<times> string) list \<Rightarrow> (string \<times> string) list" where
  "sorted_mappings node_id_mapping = rev (sort_key (\<lambda>x. length (fst x)) (rev node_id_mapping))"

definition end_node_line :: "string \<Rightarrow> string \<Rightarrow> string \<Rightarrow> string \<Rightarrow> string" where
  "end_node_line line line_stripped new_id normalized_label =
     (if CHR ''['' \<in> set line_stripped then ''    '' @ new_id @ ''['' @ normalized_label @ '']''
      else if CHR ''{'' \<in> set line_stripped then ''    '' @ new_id @ ''{'' @ normalized_label @ ''}''
      else if CHR ''('' \<in> set line_stripped then ''    '' @ new_id @ ''('' @ normalized_label @ '')''
      else line)"

fun end_nodes_loop ::
  "(string \<times> nat) list \<Rightarrow> (string \<times> string) list \<Rightarrow> string list \<Rightarrow> exn + string list" where
  "end_nodes_loop end_node_counter node_id_mapping [] = Inr []"
| "end_nodes_loop end_node_counter node_id_mapping (line # ls) =
     (let line_stripped = strip line in
      if line_stripped = [] \<or> prefix ''flowchart'' line_stripped
      then map_sum id (\<lambda>out. line # out) (end_nodes_loop end_node_counter node_id_mapping ls)
      else (case end_match line_stripped of
              Some m \<Rightarrow>
                (let old_id = group m 1;
                     label = group m 2;
                     r = get_unique_end_id end_node_counter old_id label;
                     new_id = fst (fst r);
                     normalized_label = snd (fst r);
                     mapping' = (if old_id = new_id then node_id_mapping
                                 else dict_set old_id new_id node_id_mapping)
                 in map_sum id (\<lambda>out. end_node_line line line_stripped new_id normalized_label # out)
                      (end_nodes_loop (snd r) mapping' ls))
            | None \<Rightarrow>
                if contains ''-->'' line
                then (case rewrite_references (sorted_mappings node_id_mapping) line of
                        Inl e \<Rightarrow> Inl e
                      | Inr line' \<Rightarrow>
                          map_sum id (\<lambda>out. line' # out)
                            (end_nodes_loop end_node_counter node_id_mapping ls))
                else map_sum id (\<lambda>out. line # out)
                       (end_nodes_loop end_node_counter node_id_mapping ls)))"

definition normalize_end_nodes :: "string \<Rightarrow> exn + string" where
  "normalize_end_nodes code = map_sum id (join [nl]) (end_nodes_loop [] [] (split_char nl code))"

section \<open>Duplicate removal and the two fixers\<close>

text \<open>\<^verbatim>\<open>_remove_duplicate_nodes\<close>: \<open>seen\<close> is the set \<^verbatim>\<open>seen_nodes\<close> of that method.\<close>

definition node_start_pat :: regex where
  "node_start_pat = seqs [Bol, Star ws, Group 1 (Plus (Chr is_id_char))]"

fun remove_duplicates_loop :: "string list \<Rightarrow> string list \<Rightarrow> string list" where
  "remove_duplicates_loop seen [] = []"
| "remove_duplicates_loop seen (line # ls) =
     (let line_stripped = strip line in
      if line_stripped = [] \<or> prefix ''flowchart'' line_stripped
      then line # remove_duplicates_loop seen ls
      else if contains ''-->'' line then line # remove_duplicates_loop seen ls
      else (case re_match node_start_pat line_stripped of
              Some m \<Rightarrow>
                (let node_id = group m 1 in
                 if node_id \<in> set seen then remove_duplicates_loop seen ls
                 else line # remove_duplicates_loop (node_id # seen) ls)
            | None \<Rightarrow> line # remove_duplicates_loop seen ls))"

definition remove_duplicate_nodes :: "string \<Rightarrow> string" where
  "remove_duplicate_nodes code = join [nl] (remove_duplicates_loop [] (split_char nl code))"

text \<open>\<^verbatim>\<open>_fix_mermaid_code\<close>.\<close>

definition fix_line :: "string \<Rightarrow> string list" where
  "fix_line line0 =
     (let line = strip line0 in
      if line = [] \<or> prefix ''%%'' line then []
      else if prefix ''flowchart'' line then [line]
      else if contains ''-->'' line
      then [replace ''->'' '' --> '' (replace ''- ->'' '' --> '' (replace ''-- >'' '' --> '' line))]
      else if CHR ''['' \<in> set line \<or> CHR ''{'' \<in> set line \<or> CHR ''('' \<in> set line then [line]
      else [])"

definition fix_mermaid_code :: "string \<Rightarrow> string" where
  "fix_mermaid_code code0 =
     (if code0 = [] then code0
      else (let code =
                  (if prefix ''flowchart'' (strip code0) then code0
                   else (case find_str ''flowchart'' (lower code0) of
                           Some idx \<Rightarrow> drop idx code0
                         | None \<Rightarrow> ''flowchart TD\<newline>'' @ code0))
            in join [nl] (concat (map fix_line (split_char nl code)))))"

text \<open>\<^verbatim>\<open>_fix_common_syntax_errors\<close>: an opening bracket or brace with no closing one on the
  line is closed before the arrow, or at the end of the line.\<close>

definition close_open :: "char \<Rightarrow> char \<Rightarrow> string \<Rightarrow> string \<Rightarrow> string" where
  "close_open opn cls extra line =
     (if opn \<in> set line \<and> cls \<notin> set line
      then (case find_str [opn] line of
              None \<Rightarrow> line
            | Some idx \<Rightarrow>
                (let rest_of_line = drop (idx + 1) line in
                 case find_str ''-->'' rest_of_line of
                   Some arrow_idx \<Rightarrow>
                     take (idx + 1) line @ strip_not_allowed extra (strip (take arrow_idx rest_of_line)) @
                     [cls] @ drop arrow_idx rest_of_line
                 | None \<Rightarrow> take (idx + 1) line @ strip_not_allowed extra rest_of_line @ [cls]))
      else line)"

definition fix_common_line :: "string \<Rightarrow> string list" where
  "fix_common_line line0 =
     (let line = strip line0 in
      if line = [] then []
      else if prefix ''flowchart'' line then [line]
      else (let line1 = close_open (CHR ''['') (CHR '']'') [] line;
                line2 = close_open (CHR ''{'') (CHR ''}'') ''?'' line1
            in [re_sub (seqs [Group 1 (one_of '']})''), Star ws, Chr not_space_dash_pipe])
                  (\<lambda>m. group m 1) line2]))"

definition fix_common_syntax_errors :: "string \<Rightarrow> string" where
  "fix_common_syntax_errors code = join [nl] (concat (map fix_common_line (split_char nl code)))"

section \<open>The diagram extractor\<close>

text \<open>\<^verbatim>\<open>s.splitlines()\<close>: the line boundaries are line feed, carriage return (with a line
  feed after it, one boundary), vertical tab, form feed, the separators U+001C to U+001E
  and U+0085; a boundary at the very end opens no further line.\<close>

definition is_linebreak :: "char \<Rightarrow> bool" where
  "is_linebreak c = (let n = cp c in (10 \<le> n \<and> n \<le> 13) \<or> (28 \<le> n \<and> n \<le> 30) \<or> n = 133)"

fun splitlines_from :: "string \<Rightarrow> string \<Rightarrow> string list" where
  "splitlines_from cur [] = (if cur = [] then [] else [rev cur])"
| "splitlines_from cur [c] = (if is_linebreak c then [rev cur] else [rev (c # cur)])"
| "splitlines_from cur (c # d # cs) =
     (if c = CHR 0x0D \<and> d = CHR 0x0A then rev cur # splitlines_from [] cs
      else if is_linebreak c then rev cur # splitlines_from [] (d # cs)
      else splitlines_from (c # cur) (d # cs))"

definition splitlines :: "string \<Rightarrow> string list" where
  "splitlines s = splitlines_from [] s"

text \<open>\<^verbatim>\<open>_strip_fence\<close>.\<close>

fun drop_closing_fences :: "string list \<Rightarrow> string list" where
  "drop_closing_fences [] = []"
| "drop_closing_fences (l # ls) =
     (if strip (last (l # ls)) = ''```'' then drop_closing_fences (butlast (l # ls)) else l # ls)"

declare drop_closing_fences.simps [simp del]

definition strip_fence :: "string \<Rightarrow> string" where
  "strip_fence text =
     (case splitlines text of
        [] \<Rightarrow> text
      | l # ls \<Rightarrow>
          join [nl] (drop_closing_fences (if prefix ''```'' (strip l) then ls else l # ls)))"

text \<open>The loop of \<^verbatim>\<open>_extract_mermaid\<close> over the lines, with its two flags; it returns the
  lines it collected, and stops at a closing fence once it is inside the diagram.\<close>

definition names_direction :: "string \<Rightarrow> bool" where
  "names_direction s =
     (contains ''TD'' s \<or> contains ''LR'' s \<or> contains ''TB'' s \<or> contains ''BT'' s \<or> contains ''RL'' s)"

fun extract_loop :: "bool \<Rightarrow> bool \<Rightarrow> string list \<Rightarrow> string list" where
  "extract_loop in_flowchart found_flowchart [] = []"
| "extract_loop in_flowchart found_flowchart (line # ls) =
     (let line_stripped = strip line in
      if line_stripped = [] then extract_loop in_flowchart found_flowchart ls
      else if prefix ''#'' line_stripped then extract_loop in_flowchart found_flowchart ls
      else if prefix ''```'' line_stripped
      then (if in_flowchart then [] else extract_loop in_flowchart found_flowchart ls)
      else if contains ''flowchart'' (lower line_stripped) \<and> names_direction line_stripped
      then line_stripped # extract_loop True True ls
      else if in_flowchart then line_stripped # extract_loop in_flowchart found_flowchart ls
      else if found_flowchart \<and> \<not> in_flowchart
      then (if prefix ''```'' line_stripped then []
            else extract_loop in_flowchart found_flowchart ls)
      else extract_loop in_flowchart found_flowchart ls)"

definition remaining_line :: "string \<Rightarrow> string list" where
  "remaining_line rline =
     (let rline_stripped = strip rline in
      if rline_stripped \<noteq> [] \<and> \<not> prefix ''#'' rline_stripped \<and> \<not> prefix ''```'' rline_stripped
      then [rline_stripped] else [])"

definition from_keyword :: "string \<Rightarrow> string" where
  "from_keyword s = (case find_str ''flowchart'' (lower s) of None \<Rightarrow> s | Some idx \<Rightarrow> drop idx s)"

definition extract_mermaid :: "string \<Rightarrow> string" where
  "extract_mermaid text =
     (if text = [] then []
      else (let cleaned0 = strip text;
                cleaned1 = strip (if prefix ''```'' cleaned0 then strip_fence cleaned0 else cleaned0);
                flowchart_lines0 = extract_loop False False (split_char nl cleaned1);
                flowchart_lines =
                  (if flowchart_lines0 = [] \<and> contains ''flowchart'' (lower cleaned1)
                   then concat (map remaining_line (split_char nl (from_keyword cleaned1)))
                   else flowchart_lines0)
            in if flowchart_lines = [] then []
               else (let cleaned2 = join [nl] flowchart_lines;
                         cleaned3 = (if \<not> prefix ''flowchart'' (strip cleaned2) \<and>
                                        contains ''flowchart'' (lower cleaned2)
                                     then from_keyword cleaned2 else cleaned2)
                     in if check_syntax_errors cleaned3 = [] then cleaned3
                        else sanitize_mermaid cleaned3)))"

section \<open>Modes and the prompt\<close>

text \<open>The texts of \<^verbatim>\<open>MODES\<close>, the complexity hint, and the text of \<^verbatim>\<open>prompt_template\<close> between its
  fields, with the doubled braces of \<^verbatim>\<open>str.format\<close> already single.\<close>

definition basic_system_prompt :: string where
  \<open>basic_system_prompt =
     ''You are a Mermaid flowchart expert. Generate VALID Mermaid v10 syntax.\<newline>'' @
     ''\<newline>'' @
     ''SYNTAX RULES (STRICT):\<newline>'' @
     ''1. Start with: flowchart TD\<newline>'' @
     ''2. Each node needs UNIQUE ID (A, B, C or node1, node2, etc)\<newline>'' @
     ''3. Connections: nodeID[Label] --> nextID[Label]\<newline>'' @
     ''4. Decisions: decisionID{Question?} -->|Yes| yesNode[Action]\<newline>'' @
     ''5. ONE connection per line\<newline>'' @
     ''6. NO duplicate node IDs anywhere\<newline>'' @
     ''\<newline>'' @
     ''VALID Example:\<newline>'' @
     ''flowchart TD\<newline>'' @
     ''    A[Start] --> B[Step 1]\<newline>'' @
     ''    B --> C{Need approval?}\<newline>'' @
     ''    C -->|Yes| D[Get approval]\<newline>'' @
     ''    C -->|No| E[Proceed]\<newline>'' @
     ''    D --> E\<newline>'' @
     ''    E --> F[Complete]\<newline>'' @
     ''\<newline>'' @
     ''Return ONLY the mermaid code. NO explanations.''\<close>

definition intermediate_system_prompt :: string where
  \<open>intermediate_system_prompt =
     ''You are a Mermaid flowchart expert. Create a clear, professional flowchart.\<newline>'' @
     ''\<newline>'' @
     ''SYNTAX RULES (MUST FOLLOW):\<newline>'' @
     ''1. Start: flowchart LR or flowchart TD\<newline>'' @
     ''2. Node types:\<newline>'' @
     ''   - Rectangle: id[Text]\<newline>'' @
     ''   - Diamond: id{Question?}\<newline>'' @
     ''   - Rounded: id(Text)\<newline>'' @
     ''3. Connections:\<newline>'' @
     ''   - Simple: A --> B\<newline>'' @
     ''   - Labeled: A -->|label| B\<newline>'' @
     ''4. EVERY node ID must be UNIQUE\<newline>'' @
     ''5. Keep labels clear and concise\<newline>'' @
     ''\<newline>'' @
     ''VALID Example:\<newline>'' @
     ''flowchart LR\<newline>'' @
     ''    start[Start] --> input[Get user input]\<newline>'' @
     ''    input --> validate{Valid input?}\<newline>'' @
     ''    validate -->|Yes| process[Process data]\<newline>'' @
     ''    validate -->|No| error[Show error]\<newline>'' @
     ''    error --> input\<newline>'' @
     ''    process --> save[Save to database]\<newline>'' @
     ''    save --> done[Complete]\<newline>'' @
     ''\<newline>'' @
     ''Return ONLY mermaid code.''\<close>

definition advanced_system_prompt :: string where
  \<open>advanced_system_prompt =
     ''You are an expert Mermaid diagram creator. Build a detailed, professional flowchart.\<newline>'' @
     ''\<newline>'' @
     ''MANDATORY SYNTAX:\<newline>'' @
     ''1. Begin with: flowchart TD\<newline>'' @
     ''2. Use descriptive node IDs: start_node, check_auth, process_data\<newline>'' @
     ''3. All IDs must be UNIQUE (no reuse)\<newline>'' @
     ''4. Connection format:\<newline>'' @
     ''   - nodeA[Label A] --> nodeB[Label B]\<newline>'' @
     ''   - nodeC{Question?} -->|Answer| nodeD[Action]\<newline>'' @
     ''5. For parallel flows, create separate end nodes: end1, end2\<newline>'' @
     ''6. Keep consistent indentation (4 spaces)\<newline>'' @
     ''\<newline>'' @
     ''VALID Example:\<newline>'' @
     ''flowchart TD\<newline>'' @
     ''    start_node[Start Process] --> check_auth{User authenticated?}\<newline>'' @
     ''    check_auth -->|Yes| load_data[Load user data]\<newline>'' @
     ''    check_auth -->|No| login[Redirect to login]\<newline>'' @
     ''    login --> check_auth\<newline>'' @
     ''    load_data --> process[Process request]\<newline>'' @
     ''    process --> check_error{Any errors?}\<newline>'' @
     ''    check_error -->|Yes| error_handler[Handle error]\<newline>'' @
     ''    check_error -->|No| success[Return success]\<newline>'' @
     ''    error_handler --> end_error[End with error]\<newline>'' @
     ''    success --> end_success[End successfully]\<newline>'' @
     ''\<newline>'' @
     ''Output ONLY the code. NO markdown formatting, NO explanations.''\<close>

definition complexity_hint_text :: string where
  \<open>complexity_hint_text =
     ''\<newline>'' @
     ''\<newline>'' @
     ''IMPORTANT: User requested a FULL-FLEDGED, DETAILED flowchart. Create a comprehensive flowchart with:\<newline>'' @
     ''- Multiple steps and decision points\<newline>'' @
     ''- All major components and flows\<newline>'' @
     ''- At least 10-15 nodes\<newline>'' @
     ''- Complete end-to-end process\<newline>'' @
     ''- All edge cases and branches\<newline>''\<close>

definition prompt_rules :: string where
  \<open>prompt_rules =
     ''\<newline>'' @
     ''\<newline>'' @
     ''CRITICAL SYNTAX RULES (MUST FOLLOW):\<newline>'' @
     ''1. Start with exactly "flowchart TD" (or LR/TB/BT/RL) - NO semicolon, NO extra text\<newline>'' @
     ''2. Node labels must NOT contain:\<newline>'' @
     ''   - Trailing periods, commas, or semicolons after closing brackets/braces\<newline>'' @
     ''   - Special characters like "etc.)" at the end of labels\<newline>'' @
     ''   - Unmatched brackets, braces, or parentheses\<newline>'' @
     ''3. After closing a node definition with ], }), or ), there must be ONLY:\<newline>'' @
     ''   - Whitespace\<newline>'' @
     ''   - Arrow (-->)\<newline>'' @
     ''   - Pipe for labels (|)\<newline>'' @
     ''4. Node IDs must be alphanumeric with underscores only (no spaces, no special chars) - ALL IDs must be UNIQUE\<newline>'' @
     ''5. Labels inside brackets/braces should be clean text without trailing punctuation that breaks syntax\<newline>'' @
     ''6. For End nodes: Use format "End: Description" (with colon) - e.g., "End: Success", "End: Error", NOT just "End"\<newline>'' @
     ''7. Use consistent 4-space indentation (NO tabs, NO mixed spaces/tabs)\<newline>'' @
     ''8. Every line must be properly formatted: ID[Label] --> ID or ID{Label} --> ID - avoid stray characters\<newline>'' @
     ''\<newline>'' @
     ''USER REQUEST: ''\<close>

definition prompt_sep :: string where
  \<open>prompt_sep =
     ''\<newline>''\<close>

definition prompt_task :: string where
  \<open>prompt_task =
     ''\<newline>'' @
     ''\<newline>'' @
     ''YOUR TASK:\<newline>'' @
     ''1. Understand what process/system needs to be flowcharted\<newline>'' @
     ''2. Break it down into clear, detailed steps\<newline>'' @
     ''3. Generate VALID Mermaid flowchart syntax\<newline>'' @
     ''4. Include decision points, loops, and all branches\<newline>'' @
     ''5. Make it comprehensive and complete\<newline>'' @
     ''6. Ensure ALL node definitions are properly closed\<newline>'' @
     ''7. Keep labels concise and avoid trailing punctuation\<newline>'' @
     ''\<newline>'' @
     ''Example for "notification system" (simple):\<newline>'' @
     ''flowchart TD\<newline>'' @
     ''    A[User Action] --> B[Trigger Notification]\<newline>'' @
     ''    B --> C{{Permission Granted?}}\<newline>'' @
     ''    C -->|Yes| D[Send Notification]\<newline>'' @
     ''    C -->|No| E[Request Permission]\<newline>'' @
     ''    E --> C\<newline>'' @
     ''    D --> F[User Sees Notification]\<newline>'' @
     ''\<newline>'' @
     ''For FULL-FLEDGED notification system, include:\<newline>'' @
     ''- User online/offline status\<newline>'' @
     ''- Notification types (push, in-app, etc)\<newline>'' @
     ''- Permission checks\<newline>'' @
     ''- Notification settings/preferences\<newline>'' @
     ''- Delivery mechanisms\<newline>'' @
     ''- User interactions\<newline>'' @
     ''- Error handling\<newline>'' @
     ''- And more...\<newline>'' @
     ''\<newline>'' @
     ''NOW generate a COMPLETE, DETAILED flowchart for: ''\<close>

definition prompt_output :: string where
  \<open>prompt_output =
     ''\<newline>'' @
     ''\<newline>'' @
     ''OUTPUT: Only valid Mermaid code, nothing else. Make it comprehensive. Ensure all syntax is correct.''\<close>

record flowchart_mode =
  mode_name :: string
  system_prompt :: string

definition MODES :: "string \<Rightarrow> flowchart_mode option" where
  "MODES key =
     (if key = ''basic'' then Some \<lparr>mode_name = ''basic'', system_prompt = basic_system_prompt\<rparr>
      else if key = ''intermediate''
      then Some \<lparr>mode_name = ''intermediate'', system_prompt = intermediate_system_prompt\<rparr>
      else if key = ''advanced''
      then Some \<lparr>mode_name = ''advanced'', system_prompt = advanced_system_prompt\<rparr>
      else None)"

definition LEVEL_TO_MODE :: "string \<Rightarrow> flowchart_mode option" where
  "LEVEL_TO_MODE key =
     (if key = ''1'' then MODES ''basic''
      else if key = ''2'' then MODES ''intermediate''
      else if key = ''3'' then MODES ''advanced''
      else None)"

definition resolve_mode :: "string \<Rightarrow> exn + flowchart_mode" where
  "resolve_mode level =
     (let key = lower (strip level) in
      case (if key = ''basic'' \<or> key = ''intermediate'' \<or> key = ''advanced'' then MODES key
            else LEVEL_TO_MODE key) of
        Some mode \<Rightarrow> Inr mode
      | None \<Rightarrow> Inl (ValueError ''Level must be 1, 2, 3, or a known mode name''))"

definition complexity_hint :: "string \<Rightarrow> string" where
  "complexity_hint description =
     (let d = lower description in
      if contains ''full'' d \<or> contains ''fledged'' d \<or> contains ''detailed'' d \<or> contains ''complete'' d
      then complexity_hint_text else [])"

definition build_prompt :: "flowchart_mode \<Rightarrow> string \<Rightarrow> string" where
  "build_prompt mode description =
     system_prompt mode @ prompt_rules @ description @ prompt_sep @ complexity_hint description @
     prompt_task @ description @ prompt_output"

section \<open>The escalation controller\<close>

text \<open>
  Request values are Python objects; the model has strings, integers and \<^verbatim>\<open>None\<close>.
  The agent is a record of its configuration, its collaborators and its one mutable field,
  \<^verbatim>\<open>self.status\<close>. The collaborators are functions that return or raise: \<open>ai_model\<close> is
  \<^verbatim>\<open>generate_content(prompt).text\<close> (absent without an API key), \<open>write_text\<close> writes the
  diagram under the output directory and returns the path, \<open>export_png\<close> renders and writes
  the image and returns the path; the two clock fields are the readings of
  \<^verbatim>\<open>datetime.now()\<close> in the two formats used. Console logging is not modelled.
\<close>

datatype pyval = PStr string | PInt int | PNone

definition str_int :: "int \<Rightarrow> string" where
  "str_int i = (if i < 0 then ''-'' @ str_nat (nat (- i)) else str_nat (nat i))"

fun py_str :: "pyval \<Rightarrow> string" where
  "py_str (PStr s) = s"
| "py_str (PInt i) = str_int i"
| "py_str PNone = ''None''"

fun py_strip :: "pyval \<Rightarrow> exn + string" where
  "py_strip (PStr s) = Inr (strip s)"
| "py_strip (PInt i) = Inl (AttributeError ([sq] @ ''int'' @ [sq] @ '' object has no attribute '' @ [sq] @ ''strip'' @ [sq]))"
| "py_strip PNone = Inl (AttributeError ([sq] @ ''NoneType'' @ [sq] @ '' object has no attribute '' @ [sq] @ ''strip'' @ [sq]))"

fun py_len :: "pyval \<Rightarrow> exn + nat" where
  "py_len (PStr s) = Inr (length s)"
| "py_len (PInt i) = Inl (TypeError (''object of type '' @ [sq] @ ''int'' @ [sq] @ '' has no len()''))"
| "py_len PNone = Inl (TypeError (''object of type '' @ [sq] @ ''NoneType'' @ [sq] @ '' has no len()''))"

datatype agent_status = IDLE | PROCESSING | SUCCESS | ERROR

record agent =
  ai_model :: "(string \<Rightarrow> exn + string) option"
  default_level :: pyval
  save_to_file :: bool
  write_text :: "string \<Rightarrow> string \<Rightarrow> exn + string"
  export_png :: "string \<Rightarrow> string \<Rightarrow> exn + string"
  clock_stamp :: string
  clock_iso :: string
  agent_status :: agent_status

text \<open>The two paths of \<^verbatim>\<open>_generate_mermaid\<close> after extraction: the minimal one for text
  that is valid already, and the repair. Only end-node normalization can raise.\<close>

definition minimal_touch :: "string \<Rightarrow> string" where
  "minimal_touch mermaid_code = normalize_spacing (normalize_flowchart_header mermaid_code)"

definition repair :: "string \<Rightarrow> exn + string" where
  "repair mermaid_code0 =
     (let code1 = remove_duplicate_nodes (sanitize_mermaid mermaid_code0);
          code2 = (if validate_mermaid code1 then code1
                   else sanitize_mermaid (fix_mermaid_code code1));
          code3 = (if check_syntax_errors code2 = [] then code2
                   else sanitize_mermaid (fix_common_syntax_errors code2))
      in map_sum id normalize_spacing
           (normalize_end_nodes (normalize_flowchart_header (final_cleanup code3))))"

definition with_header :: "string \<Rightarrow> string" where
  "with_header mermaid_code =
     (if prefix ''flowchart'' mermaid_code then mermaid_code else ''flowchart TD\<newline>'' @ mermaid_code)"

definition normalize_extracted :: "string \<Rightarrow> exn + string" where
  "normalize_extracted mermaid_code0 =
     (let mermaid_code = wrap_special_labels (with_header mermaid_code0) in
      if check_syntax_errors mermaid_code = [] \<and> validate_mermaid mermaid_code
      then Inr (minimal_touch mermaid_code)
      else repair mermaid_code)"

text \<open>The body of the \<^verbatim>\<open>try\<close> of \<^verbatim>\<open>_generate_mermaid\<close>, and the method: every exception of
  the body is caught and answered with the fallback diagram.\<close>

definition generate_body :: "(string \<Rightarrow> exn + string) \<Rightarrow> string \<Rightarrow> string \<Rightarrow> exn + string" where
  "generate_body model prompt description =
     (case model prompt of
        Inl e \<Rightarrow> Inl e
      | Inr full_response \<Rightarrow>
          (let mermaid_code = extract_mermaid full_response in
           if mermaid_code = [] then Inr (generate_fallback_flowchart description)
           else (case normalize_extracted mermaid_code of
                   Inl e \<Rightarrow> Inl e
                 | Inr code \<Rightarrow>
                     if validate_mermaid code then Inr code
                     else Inr (generate_fallback_flowchart description))))"

definition generate_mermaid :: "agent \<Rightarrow> pyval \<Rightarrow> string \<Rightarrow> exn + string" where
  "generate_mermaid a description0 level =
     (case ai_model a of
        None \<Rightarrow> Inl (ValueError ''Gemini API key required'')
      | Some model \<Rightarrow>
          (case py_strip description0 of
             Inl e \<Rightarrow> Inl e
           | Inr description \<Rightarrow>
               if description = [] then Inl (ValueError ''Process description cannot be empty'')
               else (case resolve_mode level of
                       Inl e \<Rightarrow> Inl e
                     | Inr mode \<Rightarrow>
                         (case generate_body model (build_prompt mode description) description of
                            Inl e \<Rightarrow> Inr (generate_fallback_flowchart description)
                          | Inr code \<Rightarrow> Inr code))))"

section \<open>The agent\<close>

text \<open>\<^verbatim>\<open>validate_request\<close> of the base class, \<^verbatim>\<open>_save_outputs\<close>, and \<^verbatim>\<open>process\<close>: the body of
  its \<^verbatim>\<open>try\<close>, and the method, which turns every exception of the body into an error
  response. The result dictionary is a record; the paths that \<^verbatim>\<open>_save_outputs\<close> returns (under
  the keys \<^verbatim>\<open>mermaid_file\<close> and \<^verbatim>\<open>png_file\<close>) are its third field.\<close>

type_synonym request = "string \<Rightarrow> pyval option"

definition validate_request :: "request \<Rightarrow> string list \<Rightarrow> exn + unit" where
  "validate_request request required_fields =
     (let missing = filter (\<lambda>field. request field = None) required_fields in
      if missing = [] then Inr ()
      else Inl (ValueError (''Missing required fields: '' @ join '', '' missing)))"

definition wants :: "pyval \<Rightarrow> string list \<Rightarrow> bool" where
  "wants output_format formats = (output_format \<in> set (map PStr formats))"

definition save_outputs :: "agent \<Rightarrow> string \<Rightarrow> pyval \<Rightarrow> pyval \<Rightarrow> exn + (string \<times> string) list" where
  "save_outputs a mermaid_code output_format filename0 =
     (let filename = (if filename0 = PNone then ''flowchart_'' @ clock_stamp a else py_str filename0) in
      case (if wants output_format [''mermaid'', ''both'']
            then map_sum id (\<lambda>p. [(''mermaid_file'', p)]) (write_text a (filename @ ''.mmd'') mermaid_code)
            else Inr []) of
        Inl e \<Rightarrow> Inl e
      | Inr paths \<Rightarrow>
          if wants output_format [''png'', ''both'']
          then map_sum id (\<lambda>p. paths @ [(''png_file'', p)]) (export_png a (filename @ ''.png'') mermaid_code)
          else Inr paths)"

record flowchart_result =
  mermaid_code :: string
  level :: pyval
  file_paths :: "(string \<times> string) list"

datatype metadata =
    SuccessMeta nat pyval pyval
  | ErrorMeta request

record agent_response =
  agent_name :: string
  status :: agent_status
  result :: "flowchart_result option"
  error :: "string option"
  metadata :: metadata
  timestamp :: string

definition get_or :: "request \<Rightarrow> string \<Rightarrow> pyval \<Rightarrow> pyval" where
  "get_or request key dflt = (case request key of None \<Rightarrow> dflt | Some v \<Rightarrow> v)"

definition process_body :: "agent \<Rightarrow> request \<Rightarrow> exn + flowchart_result \<times> metadata" where
  "process_body a request =
     (case validate_request request [''description''] of
        Inl e \<Rightarrow> Inl e
      | Inr u \<Rightarrow>
          (let description = get_or request ''description'' PNone;
               lvl = get_or request ''level'' (default_level a);
               output_format = get_or request ''output_format'' (PStr ''mermaid'');
               filename = get_or request ''filename'' PNone
           in case generate_mermaid a description (py_str lvl) of
                Inl e \<Rightarrow> Inl e
              | Inr code \<Rightarrow>
                  (case (if save_to_file a \<or> wants output_format [''png'', ''both'']
                         then save_outputs a code output_format filename else Inr []) of
                     Inl e \<Rightarrow> Inl e
                   | Inr paths \<Rightarrow>
                       (case py_len description of
                          Inl e \<Rightarrow> Inl e
                        | Inr n \<Rightarrow>
                            Inr (\<lparr>mermaid_code = code, level = lvl, file_paths = paths\<rparr>,
                                 SuccessMeta n lvl output_format)))))"

definition process :: "agent \<Rightarrow> request \<Rightarrow> agent \<times> agent_response" where
  "process a request =
     (case process_body a request of
        Inr (res, meta) \<Rightarrow>
          (a\<lparr>agent_status := SUCCESS\<rparr>,
           \<lparr>agent_name = ''Flowchart Agent'', status = SUCCESS, result = Some res, error = None,
            metadata = meta, timestamp = clock_iso a\<rparr>)
      | Inl exc \<Rightarrow>
          (a\<lparr>agent_status := ERROR\<rparr>,
           \<lparr>agent_name = ''Flowchart Agent'', status = ERROR, result = None,
            error = Some (exn_str exc), metadata = ErrorMeta request, timestamp = clock_iso a\<rparr>))"

section \<open>Example collaborators\<close>

text \<open>Collaborators and agents for the concrete runs below: a text generation service
  that times out on every prompt, a file system that stores every file, a rendering service
  that is unreachable.\<close>

definition timing_out :: "string \<Rightarrow> exn + string" where
  "timing_out prompt = Inl (Raised ''Deadline exceeded'')"

definition storing :: "string \<Rightarrow> string \<Rightarrow> exn + string" where
  "storing filename content = Inr (''outputs/'' @ filename)"

definition unreachable :: "string \<Rightarrow> string \<Rightarrow> exn + string" where
  "unreachable filename content = Inl (Raised ''Connection refused'')"

definition offline_agent :: agent where
  "offline_agent =
     \<lparr>ai_model = Some timing_out, default_level = PStr ''1'', save_to_file = False,
      write_text = storing, export_png = unreachable, clock_stamp = ''20260101_120000'',
      clock_iso = ''2026-01-01T12:00:00'', agent_status = IDLE\<rparr>"

definition keyless_agent :: agent where
  "keyless_agent = offline_agent\<lparr>ai_model := None\<rparr>"

definition hello_request :: request where
  "hello_request = [''description'' \<mapsto> PStr ''Hello'']"

definition hello_png_request :: request where
  "hello_png_request = [''description'' \<mapsto> PStr ''Hello'', ''output_format'' \<mapsto> PStr ''png'']"

text \<open>A text generation service that answers every prompt with prose and no diagram.\<close>

definition apologising :: "string \<Rightarrow> exn + string" where
  "apologising prompt = Inr ''Sorry, I cannot draw that chart.''"



section \<open>Verification\<close>

subsection \<open>The fallback generator\<close>

lemma chr_letters:
  "chr 65 = CHR ''A''" "chr 66 = CHR ''B''" "chr 67 = CHR ''C''" "chr 68 = CHR ''D''"
  by code_simp+

lemma clean_step_consts:
  "clean_step ''Start'' = ''Start''" "clean_step ''Process'' = ''Process''" "clean_step ''End'' = ''End''"
  by code_simp+

text \<open>
  Claim C1: for every description the fallback diagram meets the validator's thresholds,
  also for a description that yields only one usable step. The code does not: for the
  description \<^verbatim>\<open>Hello\<close> the only step is \<^verbatim>\<open>Hello\<close>, the diagram is the header and the one node
  \<^verbatim>\<open>A[Hello]\<close>; no connection is ever appended, so the diagram has no arrow, and
  \<^verbatim>\<open>_validate_mermaid\<close> rejects it.
\<close>

theorem fallback_single_step_invalid:
  "generate_fallback_flowchart ''Hello'' = ''flowchart TD\<newline>    A[Hello]\<newline>'' \<and>
   contains ''-->'' (generate_fallback_flowchart ''Hello'') = False \<and>
   validate_mermaid (generate_fallback_flowchart ''Hello'') = False"
  by code_simp

text \<open>
  Claim C8, as stated: with no usable step the generic path emits a three-node chain
  \<^verbatim>\<open>Start --> topic --> End\<close>. It is false at the description \<^verbatim>\<open>#\<close> (a comment line, so no step):
  the diagram has the four nodes \<^verbatim>\<open>Start\<close>, the topic, \<^verbatim>\<open>Process\<close> and \<^verbatim>\<open>End\<close>.
\<close>

theorem fallback_no_steps_counterexample:
  "fallback_steps ''#'' = [] \<and>
   generate_fallback_flowchart ''#'' =
     ''flowchart TD\<newline>    A[Start]\<newline>    B[#]\<newline>    C[Process]\<newline>    D[End]\<newline>    A --> B\<newline>    B --> C\<newline>    C --> D'' \<and>
   count_char (CHR ''['') (generate_fallback_flowchart ''#'') = 4"
  by code_simp

text \<open>
  Claim C8, amended: for every description that matches no canned template and from which no
  usable step can be split, the generic path emits the four-node linear chain
  \<^verbatim>\<open>Start --> topic --> Process --> End\<close>, where the topic is the first 40 characters of the
  description, without square brackets and with double quotes turned into single ones.
\<close>

theorem fallback_no_steps_chain:
  assumes "fallback_steps d = []"
    and "\<not> mentions_notification (lower d)"
    and "\<not> mentions_login (lower d)"
  shows "generate_fallback_flowchart d =
     ''flowchart TD\<newline>    A[Start]\<newline>    B['' @ clean_step (take 40 d) @
     '']\<newline>    C[Process]\<newline>    D[End]\<newline>    A --> B\<newline>    B --> C\<newline>    C --> D''"
proof -
  have idx: "enumerate_from 0 [''Start'', take 40 d, ''Process'', ''End''] =
      [(0, ''Start''), (1, take 40 d), (2, ''Process''), (3, ''End'')]"
    by (simp add: enumerate_from_def upt_rec)
  show ?thesis
    using assms
    by (simp add: generate_fallback_flowchart_def Let_def idx fallback_node_def
        fallback_connection_def clean_step_consts chr_letters nl_def)
qed

theorem fallback_no_steps_chain_witness:
  "generate_fallback_flowchart ''123. '' =
     ''flowchart TD\<newline>    A[Start]\<newline>    B[123. ]\<newline>    C[Process]\<newline>    D[End]\<newline>    A --> B\<newline>    B --> C\<newline>    C --> D''"
proof -
  have a: "fallback_steps ''123. '' = []" by code_simp
  have b: "\<not> mentions_notification (lower ''123. '')" by code_simp
  have c: "\<not> mentions_login (lower ''123. '')" by code_simp
  have d: "clean_step (take 40 ''123. '') = ''123. ''" by code_simp
  show ?thesis using fallback_no_steps_chain [OF a b c] d by simp
qed

subsection \<open>The sanitizer and the end nodes\<close>

text \<open>
  Claim C6: when cleaning leaves a label empty a placeholder is substituted, so the sanitized
  output never contains an empty pair of brackets, braces or parentheses. The code does not
  do that: \<^verbatim>\<open>clean_label\<close> substitutes the placeholder before the allow-list removes
  characters, so the label \<^verbatim>\<open>!\<close> passes \<^verbatim>\<open>clean_label\<close> unchanged and is then emptied; the final
  cleanup replaces only labels of at least one space or dash, and leaves the empty pairs.
  The last conjunct runs the controller on an extracted text with a syntax error: the
  diagram it returns has the empty pairs.
\<close>

theorem sanitizer_emits_empty_pairs:
  "sanitize_mermaid ''flowchart TD\<newline>A[!] --> B[ok]\<newline>C{!}\<newline>D(!)'' =
     ''flowchart TD\<newline>    A[] --> B[ok]\<newline>    C{}\<newline>    D()'' \<and>
   final_cleanup ''flowchart TD\<newline>    A[] --> B[ok]\<newline>    C{}\<newline>    D()'' =
     ''flowchart TD\<newline>    A[] --> B[ok]\<newline>    C{}\<newline>    D()'' \<and>
   normalize_extracted ''flowchart TD\<newline>A[!] --> B[ok\<newline>B --> C{!}'' =
     Inr ''flowchart TD\<newline>    A[] --> B[ok]\<newline>    B --> C{}''"
  by code_simp

text \<open>
  Claim C4: a later definition of an end node's identifier gets a suffixed identifier, and
  the references to it in later edge lines are rewritten. The code fails for an identifier
  that starts with a digit: the replacement template is the string \<^verbatim>\<open>\1\<close> followed by the new
  identifier, here \<^verbatim>\<open>\11_1\2\<close>, which Python reads as a reference to group 11, and \<^verbatim>\<open>re.sub\<close>
  raises. The second conjunct is the controller on an extracted text that needs repair:
  the exception leaves \<^verbatim>\<open>_normalize_end_nodes\<close> (and \<^verbatim>\<open>_generate_mermaid\<close> answers with the
  fallback diagram).
\<close>

theorem end_nodes_digit_identifier_raises:
  "normalize_end_nodes ''flowchart TD\<newline>    1[End a]\<newline>    1[End b]\<newline>    A --> 1'' =
     Inl (ReError ''invalid group reference 11 at position 1'') \<and>
   normalize_extracted
     (extract_mermaid ''flowchart TD\<newline>1[End a) x] --> B\<newline>1[End b] --> C\<newline>A --> 1'') =
     Inl (ReError ''invalid group reference 11 at position 1'')"
  by code_simp

subsection \<open>The syntax check\<close>

text \<open>Facts about the matcher: a sequence, a literal character, and \<^verbatim>\<open>\s*\<close> in front of a
  character that is no whitespace.\<close>

lemma mk_seqs_Cons [simp]: "mk (seqs (r # rs)) k st = mk r (mk (seqs rs) k) st"
  by (simp add: seqs_def)

lemma mk_seqs_Nil [simp]: "mk (seqs []) k st = k st"
  by (simp add: seqs_def)

lemma mk_ch [simp]: "mk (ch c) k st = (if rest st \<noteq> [] \<and> hd (rest st) = c then k (advance st) else None)"
  by (simp add: ch_def)

lemma star_ws_stop:
  assumes "rest st \<noteq> []" "\<not> is_space (hd (rest st))"
  shows "mk (Star ws) k st = k st"
proof -
  obtain n where n: "length (rest st) = Suc n" using assms(1) by (cases "rest st") auto
  show ?thesis using assms by (simp add: n ws_def)
qed

lemma match_after_close:
  assumes "not_space_dash_pipe d"
  shows "match_at (after_close c) bef (c # d # tl0) \<noteq> None"
proof -
  have "\<not> is_space d" using assms by (simp add: not_space_dash_pipe_def)
  then show ?thesis using assms
    by (simp add: match_at_def after_close_def start_state_def advance_def star_ws_stop
        del: mk.simps(5))
qed

lemma search_from_append:
  assumes "match_at r (rev xs @ bef) ys \<noteq> None"
  shows "search_from r bef (xs @ ys) \<noteq> None"
  using assms
proof (induction xs arbitrary: bef)
  case Nil
  then show ?case by (cases ys) (auto split: option.splits)
next
  case (Cons x xs)
  then show ?case by (auto split: option.splits)
qed

lemma search_after_close:
  assumes "Suc j < length line" "line ! j = c" "not_space_dash_pipe (line ! Suc j)"
  shows "re_search (after_close c) line \<noteq> None"
proof -
  have "line = take j line @ (line ! j) # (line ! Suc j) # drop (Suc (Suc j)) line"
    using assms(1) by (metis Cons_nth_drop_Suc Suc_lessD append_take_drop_id)
  then obtain xs tl0 where l: "line = xs @ c # (line ! Suc j) # tl0" using assms(2) by metis
  have "match_at (after_close c) (rev xs @ []) (c # (line ! Suc j) # tl0) \<noteq> None"
    using match_after_close[OF assms(3)] by simp
  from search_from_append[OF this] show ?thesis unfolding re_search_def using l by simp
qed


lemma enumerate_from_nth:
  "i < length xs \<Longrightarrow> enumerate_from k xs ! i = (k + i, xs ! i)"
  by (simp add: enumerate_from_def)

lemma enumerate_from_mem:
  "i < length xs \<Longrightarrow> (k + i, xs ! i) \<in> set (enumerate_from k xs)"
  by (metis enumerate_from_nth enumerate_from_def length_zip length_upt add_diff_cancel_left'
      min.idem nth_mem)

lemma line_errors_bracket:
  assumes "strip l0 = line" and "line \<noteq> []"
    and "\<not> prefix ''flowchart'' line" and "\<not> prefix ''%%'' line"
    and "contains ''-->'' line"
    and "re_search (after_close (CHR '']'')) line = Some m"
  shows "line_error i ''Invalid character after closing bracket'' \<in> set (line_errors (i, l0))"
  using assms by (simp add: line_errors_def Let_def)

lemma line_errors_brace:
  assumes "strip l0 = line" and "line \<noteq> []"
    and "\<not> prefix ''flowchart'' line" and "\<not> prefix ''%%'' line"
    and "contains ''-->'' line"
    and "re_search (after_close (CHR ''}'')) line = Some m"
  shows "line_error i ''Invalid character after closing brace'' \<in> set (line_errors (i, l0))"
  using assms by (simp add: line_errors_def Let_def)

text \<open>
  Claim C7, amended: for every document line that is not blank, not a header or comment line
  and contains an arrow, the syntax check reports a line error whenever a character other
  than whitespace, a dash or a pipe immediately follows a closing square bracket (the error
  \<^verbatim>\<open>Invalid character after closing bracket\<close>) or a closing curly brace (\<^verbatim>\<open>Invalid character
  after closing brace\<close>). Lines are numbered from 1; \<open>line\<close> is the stripped line \<open>i\<close>, and
  \<open>j\<close> the position of the closing bracket.
\<close>

theorem syntax_check_reports_after_closing:
  assumes "i < length (split_char nl code)"
    and "line = strip (split_char nl code ! i)"
    and "\<not> prefix ''flowchart'' line" and "\<not> prefix ''%%'' line"
    and "contains ''-->'' line"
    and "Suc j < length line"
    and "\<not> is_space (line ! Suc j)" and "line ! Suc j \<noteq> CHR ''-''" and "line ! Suc j \<noteq> CHR ''|''"
  shows "(line ! j = CHR '']'' \<longrightarrow>
           line_error (Suc i) ''Invalid character after closing bracket'' \<in> set (check_syntax_errors code)) \<and>
         (line ! j = CHR ''}'' \<longrightarrow>
           line_error (Suc i) ''Invalid character after closing brace'' \<in> set (check_syntax_errors code))"
proof -
  have bad: "not_space_dash_pipe (line ! Suc j)"
    using assms(7-9) by (simp add: not_space_dash_pipe_def)
  have ne: "line \<noteq> []" using assms(6) by auto
  have mem: "(Suc i, split_char nl code ! i) \<in> set (enumerate_from 1 (split_char nl code))"
    using enumerate_from_mem[OF assms(1), of 1] by simp
  have in_concat: "\<And>e. e \<in> set (line_errors (Suc i, split_char nl code ! i)) \<Longrightarrow>
      e \<in> set (check_syntax_errors code)"
    using mem by (auto simp: check_syntax_errors_def)
  have sq: "line_error (Suc i) ''Invalid character after closing bracket'' \<in>
        set (line_errors (Suc i, split_char nl code ! i))" if "line ! j = CHR '']''"
  proof -
    from search_after_close[OF assms(6) that bad]
    obtain m where "re_search (after_close (CHR '']'')) line = Some m" by auto
    from line_errors_bracket[OF assms(2)[symmetric] ne assms(3,4,5) this] show ?thesis .
  qed
  have cu: "line_error (Suc i) ''Invalid character after closing brace'' \<in>
        set (line_errors (Suc i, split_char nl code ! i))" if "line ! j = CHR ''}''"
  proof -
    from search_after_close[OF assms(6) that bad]
    obtain m where "re_search (after_close (CHR ''}'')) line = Some m" by auto
    from line_errors_brace[OF assms(2)[symmetric] ne assms(3,4,5) this] show ?thesis .
  qed
  show ?thesis using sq cu in_concat by blast
qed

theorem syntax_check_reports_after_closing_witness:
  "''Line 2: Invalid character after closing bracket'' \<in>
     set (check_syntax_errors ''flowchart TD\<newline>A[x]y --> B'')"
proof -
  have sp: "split_char nl ''flowchart TD\<newline>A[x]y --> B'' = [''flowchart TD'', ''A[x]y --> B'']"
    by code_simp
  have st: "strip ''A[x]y --> B'' = ''A[x]y --> B''" by code_simp
  have h1: "(1::nat) < length (split_char nl ''flowchart TD\<newline>A[x]y --> B'')" unfolding sp by simp
  have h2: "''A[x]y --> B'' = strip (split_char nl ''flowchart TD\<newline>A[x]y --> B'' ! 1)"
    unfolding sp by (simp add: st)
  have h3: "\<not> prefix ''flowchart'' ''A[x]y --> B''" by simp
  have h4: "\<not> prefix ''%%'' ''A[x]y --> B''" by simp
  have h5: "contains ''-->'' ''A[x]y --> B''" by code_simp
  have h6: "Suc 3 < length ''A[x]y --> B''" by simp
  have h7: "\<not> is_space (''A[x]y --> B'' ! Suc 3)" by code_simp
  have h8: "''A[x]y --> B'' ! Suc 3 \<noteq> CHR ''-''" by code_simp
  have h9: "''A[x]y --> B'' ! Suc 3 \<noteq> CHR ''|''" by code_simp
  have j: "''A[x]y --> B'' ! 3 = CHR '']''" by code_simp
  have e: "line_error (Suc 1) ''Invalid character after closing bracket'' =
      ''Line 2: Invalid character after closing bracket''" by code_simp
  have "line_error (Suc 1) ''Invalid character after closing bracket'' \<in>
     set (check_syntax_errors ''flowchart TD\<newline>A[x]y --> B'')"
    using syntax_check_reports_after_closing [OF h1 h2 h3 h4 h5 h6 h7 h8 h9] j by blast
  then show ?thesis by (simp only: e)
qed

text \<open>
  Claim C7, as stated: a line error is reported whenever such a character follows a closing
  bracket, brace or parenthesis, on every line. It is false on a line without an arrow: the
  check looks for the character only on lines that contain \<^verbatim>\<open>-->\<close>. Here \<^verbatim>\<open>x\<close> follows the
  closing bracket and nothing is reported.
\<close>

theorem syntax_check_counterexample:
  "check_syntax_errors ''flowchart TD\<newline>A[Start]x'' = []"
  by code_simp

subsection \<open>Spacing normalization\<close>

text \<open>Splitting at line feeds and joining with them; tabs; trimming.\<close>

lemma split_char_not_Nil [simp]: "split_char d s \<noteq> []"
  by (induction s) (auto split: list.splits)

lemma split_char_no_sep: "l \<in> set (split_char d s) \<Longrightarrow> d \<notin> set l"
proof (induction s arbitrary: l)
  case Nil
  then show ?case by simp
next
  case (Cons c s)
  show ?case
  proof (cases "c = d")
    case True
    with Cons show ?thesis by auto
  next
    case False
    obtain x xs where sp: "split_char d s = x # xs"
      using split_char_not_Nil[of d s] by (cases "split_char d s") auto
    with Cons False show ?thesis by auto
  qed
qed

lemma split_char_no_sep_id: "d \<notin> set x \<Longrightarrow> split_char d x = [x]"
  by (induction x) auto

lemma split_char_append_sep:
  "d \<notin> set x \<Longrightarrow> split_char d (x @ d # s) = x # split_char d s"
  by (induction x) auto

lemma split_char_join:
  assumes "xs \<noteq> []" and "\<forall>x\<in>set xs. d \<notin> set x"
  shows "split_char d (join [d] xs) = xs"
  using assms
proof (induction "[d]" xs rule: join.induct)
  case 1
  then show ?case by simp
next
  case (2 x)
  then show ?case by (simp add: split_char_no_sep_id)
next
  case (3 x y ys)
  then show ?case by (simp add: split_char_append_sep)
qed

lemma set_join_subset: "set (join sep xs) \<subseteq> set sep \<union> \<Union> (set ` set xs)"
  by (induction sep xs rule: join.induct) auto

lemma set_replace_subset:
  "old \<noteq> [] \<Longrightarrow> set (replace old new s) \<subseteq> set s \<union> set new"
proof (induction old new s rule: replace.induct)
  case (1 old new s)
  show ?case
  proof (cases "s = []")
    case True
    then show ?thesis by (simp add: replace.simps)
  next
    case False
    show ?thesis
    proof (cases "prefix old s")
      case True
      have "set (drop (length old) s) \<subseteq> set s" by (rule set_drop_subset)
      with 1 True False show ?thesis by (subst replace.simps) auto
    next
      case pf: False
      have "set (tl s) \<subseteq> set s" using False by (cases s) auto
      moreover have "hd s \<in> set s" using False by simp
      ultimately show ?thesis using 1 pf False by (subst replace.simps) auto
    qed
  qed
qed

lemma replace_char_gone:
  "c \<notin> set new \<Longrightarrow> c \<notin> set (replace [c] new s)"
proof (induction "[c]" new s rule: replace.induct)
  case (1 new s)
  show ?case
  proof (cases s)
    case Nil
    then show ?thesis by (simp add: replace.simps)
  next
    case (Cons a as)
    show ?thesis
    proof (cases "a = c")
      case True
      with 1 Cons show ?thesis by (subst replace.simps) auto
    next
      case False
      with 1 Cons show ?thesis by (subst replace.simps) auto
    qed
  qed
qed

lemma set_strip_subset: "set (strip s) \<subseteq> set s"
proof -
  have "set (strip s) \<subseteq> set (dropWhile is_space s)"
    unfolding strip_def rstrip_def lstrip_def using set_dropWhileD by fastforce
  also have "\<dots> \<subseteq> set s" using set_dropWhileD by fastforce
  finally show ?thesis .
qed

lemma rstrip_prefix: "prefix (rstrip s) s"
  unfolding rstrip_def by (metis suffix_dropWhile suffix_to_prefix rev_rev_ident)

lemma strip_hd_not_space:
  assumes "strip s \<noteq> []"
  shows "\<not> is_space (hd (strip s))"
proof -
  let ?t = "lstrip s"
  have p: "prefix (strip s) ?t" unfolding strip_def by (rule rstrip_prefix)
  then have tne: "?t \<noteq> []" using assms by auto
  have "hd (strip s) = hd ?t" using p assms by (auto simp: prefix_def)
  moreover have "\<not> is_space (hd ?t)" using tne unfolding lstrip_def by (rule hd_dropWhile)
  ultimately show ?thesis by simp
qed

lemma tab_not_space4: "tab \<notin> set ''    ''" 
  by (simp add: tab_def)

lemma expand_tabs_no_tab: "tab \<notin> set (expand_tabs l)"
  unfolding expand_tabs_def by (rule replace_char_gone) (simp add: tab_def)

lemma expand_tabs_no_nl: "nl \<notin> set l \<Longrightarrow> nl \<notin> set (expand_tabs l)"
  unfolding expand_tabs_def using set_replace_subset[of "[tab]" "''    ''" l]
  by (auto simp: nl_def)

lemma set_spacing_line: "set (spacing_line l) \<subseteq> set (expand_tabs l) \<union> {CHR '' ''}"
  using set_strip_subset[of "expand_tabs l"]
  by (auto simp: spacing_line_def Let_def)

lemma spacing_line_no_tab: "tab \<notin> set (spacing_line l)"
  using set_spacing_line[of l] expand_tabs_no_tab[of l] by (auto simp: tab_def)

lemma spacing_line_no_nl: "nl \<notin> set l \<Longrightarrow> nl \<notin> set (spacing_line l)"
  using set_spacing_line[of l] expand_tabs_no_nl[of l] by (auto simp: nl_def)

lemma normalize_spacing_split:
  "split_char nl (normalize_spacing code) = map spacing_line (split_char nl code)"
  unfolding normalize_spacing_def
  by (rule split_char_join) (auto dest: split_char_no_sep spacing_line_no_nl)

lemma normalize_spacing_no_tab: "tab \<notin> set (normalize_spacing code)"
  unfolding normalize_spacing_def
  using set_join_subset[of "[nl]" "map spacing_line (split_char nl code)"] spacing_line_no_tab
  by (auto simp: nl_def tab_def)

lemma spacing_line_indent_exact:
  assumes "strip (expand_tabs l) \<noteq> []" and "\<not> prefix ''flowchart'' (strip (expand_tabs l))"
  shows "spacing_line l =
     replicate (if prefix '' '' (expand_tabs l)
                then max 4 (4 * (length (takeWhile is_space (expand_tabs l)) div 4)) else 4)
       (CHR '' '') @ strip (expand_tabs l)"
proof (cases "prefix '' '' (expand_tabs l)")
  case False
  with assms show ?thesis by (simp add: spacing_line_def Let_def numeral_eq_Suc)
next
  case True
  let ?e = "expand_tabs l"
  let ?k = "length ?e - length (lstrip ?e)"
  have k: "?k = length (takeWhile is_space ?e)"
    unfolding lstrip_def
    by (metis add_diff_cancel_right' length_append takeWhile_dropWhile_id)
  have n: "(if ?k div 4 * 4 = 0 then 4 else ?k div 4 * 4) = max 4 (4 * (?k div 4))"
    by auto
  have "spacing_line l = replicate (if ?k div 4 * 4 = 0 then 4 else ?k div 4 * 4) (CHR '' '') @ strip ?e"
    using assms True by (simp add: spacing_line_def Let_def)
  then show ?thesis using True unfolding n k by simp
qed

text \<open>
  Claim C5, amended: after spacing normalization the document has one line per input line
  and no tab. With the tabs of a line replaced by four spaces each and the line trimmed: a
  blank line becomes empty; a line that starts with \<^verbatim>\<open>flowchart\<close> becomes its trimmed text, with
  no leading whitespace; every other line becomes its trimmed text behind exactly four
  spaces when it does not start with a space, and otherwise behind the number of its leading
  whitespace characters rounded down to a multiple of four, but at least four (so a line
  with eight or more leading whitespace characters keeps a deeper indentation).
\<close>

theorem normalize_spacing_lines:
  "split_char nl (normalize_spacing code) = map spacing_line (split_char nl code) \<and>
   tab \<notin> set (normalize_spacing code) \<and>
   (\<forall>l. (strip (expand_tabs l) = [] \<longrightarrow> spacing_line l = []) \<and>
        (prefix ''flowchart'' (strip (expand_tabs l)) \<longrightarrow>
           spacing_line l = strip (expand_tabs l) \<and> \<not> is_space (hd (spacing_line l))) \<and>
        (strip (expand_tabs l) \<noteq> [] \<and> \<not> prefix ''flowchart'' (strip (expand_tabs l)) \<longrightarrow>
           \<not> is_space (hd (strip (expand_tabs l))) \<and>
           spacing_line l =
             replicate (if prefix '' '' (expand_tabs l)
                        then max 4 (4 * (length (takeWhile is_space (expand_tabs l)) div 4)) else 4)
               (CHR '' '') @ strip (expand_tabs l)))"
proof (intro conjI allI impI)
  show "split_char nl (normalize_spacing code) = map spacing_line (split_char nl code)"
    by (rule normalize_spacing_split)
  show "tab \<notin> set (normalize_spacing code)" by (rule normalize_spacing_no_tab)
next
  fix l assume "strip (expand_tabs l) = []"
  then show "spacing_line l = []" by (simp add: spacing_line_def Let_def)
next
  fix l assume p: "prefix ''flowchart'' (strip (expand_tabs l))"
  then show e: "spacing_line l = strip (expand_tabs l)" by (simp add: spacing_line_def Let_def)
  from p have "strip (expand_tabs l) \<noteq> []" by auto
  from strip_hd_not_space[OF this] show "\<not> is_space (hd (spacing_line l))" using e by simp
next
  fix l assume a: "strip (expand_tabs l) \<noteq> [] \<and> \<not> prefix ''flowchart'' (strip (expand_tabs l))"
  then show "\<not> is_space (hd (strip (expand_tabs l)))" using strip_hd_not_space by blast
  from a show "spacing_line l =
             replicate (if prefix '' '' (expand_tabs l)
                        then max 4 (4 * (length (takeWhile is_space (expand_tabs l)) div 4)) else 4)
               (CHR '' '') @ strip (expand_tabs l)"
    using spacing_line_indent_exact by blast
qed

theorem normalize_spacing_lines_witness:
  "split_char nl (normalize_spacing (''  flowchart TD\<newline>'' @ [tab] @ ''A --> B\<newline>  '' @ [tab] @ ''       C'')) =
     [''flowchart TD'', ''    A --> B'', ''            C''] \<and>
   tab \<notin> set (normalize_spacing (''  flowchart TD\<newline>'' @ [tab] @ ''A --> B\<newline>  '' @ [tab] @ ''       C'')) \<and>
   spacing_line (''  '' @ [tab] @ ''       C'') = replicate 12 (CHR '' '') @ ''C''"
proof -
  let ?code = "''  flowchart TD\<newline>'' @ [tab] @ ''A --> B\<newline>  '' @ [tab] @ ''       C''"
  let ?l = "''  '' @ [tab] @ ''       C''"
  have r: "map spacing_line (split_char nl ?code) = [''flowchart TD'', ''    A --> B'', ''            C'']"
    by code_simp
  have t: "strip (expand_tabs ?l) = ''C''" by code_simp
  have p: "prefix '' '' (expand_tabs ?l)" by code_simp
  have k: "max 4 (4 * (length (takeWhile is_space (expand_tabs ?l)) div 4)) = 12" by code_simp
  note th = normalize_spacing_lines [of ?code]
  from th have 1: "split_char nl (normalize_spacing ?code) = [''flowchart TD'', ''    A --> B'', ''            C'']"
    unfolding r by blast
  from th have 2: "tab \<notin> set (normalize_spacing ?code)" by blast
  from th have "strip (expand_tabs ?l) \<noteq> [] \<and> \<not> prefix ''flowchart'' (strip (expand_tabs ?l)) \<longrightarrow>
       spacing_line ?l =
             replicate (if prefix '' '' (expand_tabs ?l)
                        then max 4 (4 * (length (takeWhile is_space (expand_tabs ?l)) div 4)) else 4)
               (CHR '' '') @ strip (expand_tabs ?l)"
    by blast
  then have 3: "spacing_line ?l = replicate 12 (CHR '' '') @ ''C''"
    unfolding t k using p by simp
  from 1 2 3 show ?thesis by blast
qed

text \<open>
  Claim C5, as stated: every line but the header is indented to exactly four spaces
  regardless of its original indentation. It is false for a line indented by eight spaces,
  which keeps them.
\<close>

theorem normalize_spacing_counterexample:
  "normalize_spacing ''flowchart TD\<newline>        A --> B'' = ''flowchart TD\<newline>        A --> B'' \<and>
   split_char nl (normalize_spacing ''flowchart TD\<newline>        A --> B'') ! 1 = ''        A --> B''"
  by code_simp

subsection \<open>The minimal-touch path\<close>












lemma strip_Nil [simp]: "strip [] = []"
  by (simp add: strip_def lstrip_def rstrip_def)










subsection \<open>The agent\<close>

lemma fallback_prefix: "prefix ''flowchart TD'' (generate_fallback_flowchart d)"
  by (simp add: generate_fallback_flowchart_def Let_def notification_template_def login_template_def)

lemma fallback_not_Nil: "generate_fallback_flowchart d \<noteq> []"
  using fallback_prefix[of d] by auto

text \<open>
  Claim C2, amended: for every request whose description is a string with a character that
  is no whitespace, for an agent with an API key and a level that names a mode (so that the
  text generation service is called), if the call raises, \<^verbatim>\<open>process\<close> returns a response with
  status \<^verbatim>\<open>SUCCESS\<close> and no error, whose \<^verbatim>\<open>mermaid_code\<close> is the fallback diagram of the stripped
  description, which is not empty; provided that no file output is requested, or that saving
  the outputs does not raise.
\<close>

theorem generation_failure_falls_back:
  assumes "request ''description'' = Some (PStr d)"
    and "ai_model a = Some model"
    and "strip d \<noteq> []"
    and "resolve_mode (py_str (get_or request ''level'' (default_level a))) = Inr mode"
    and "model (build_prompt mode (strip d)) = Inl e"
    and "(\<not> save_to_file a \<and> \<not> wants (get_or request ''output_format'' (PStr ''mermaid'')) [''png'', ''both'']) \<or>
         save_outputs a (generate_fallback_flowchart (strip d))
           (get_or request ''output_format'' (PStr ''mermaid'')) (get_or request ''filename'' PNone) = Inr paths"
  shows "status (snd (process a request)) = SUCCESS \<and>
         error (snd (process a request)) = None \<and>
         map_option mermaid_code (result (snd (process a request))) =
           Some (generate_fallback_flowchart (strip d)) \<and>
         generate_fallback_flowchart (strip d) \<noteq> []"
proof -
  have g: "generate_mermaid a (PStr d) (py_str (get_or request ''level'' (default_level a))) =
      Inr (generate_fallback_flowchart (strip d))"
    using assms(2-5) by (simp add: generate_mermaid_def generate_body_def)
  have v: "validate_request request [''description''] = Inr ()"
    using assms(1) by (simp add: validate_request_def)
  have d: "get_or request ''description'' PNone = PStr d"
    using assms(1) by (simp add: get_or_def)
  obtain ps where "(if save_to_file a \<or> wants (get_or request ''output_format'' (PStr ''mermaid'')) [''png'', ''both'']
         then save_outputs a (generate_fallback_flowchart (strip d))
           (get_or request ''output_format'' (PStr ''mermaid'')) (get_or request ''filename'' PNone)
         else Inr []) = Inr ps"
  proof (cases "save_to_file a \<or> wants (get_or request ''output_format'' (PStr ''mermaid'')) [''png'', ''both'']")
    case True
    with assms(6) that show ?thesis by auto
  next
    case False
    with that show ?thesis by auto
  qed
  then have "process_body a request =
      Inr (\<lparr>mermaid_code = generate_fallback_flowchart (strip d),
            level = get_or request ''level'' (default_level a), file_paths = ps\<rparr>,
           SuccessMeta (length d) (get_or request ''level'' (default_level a))
             (get_or request ''output_format'' (PStr ''mermaid'')))"
    using g v d by (simp add: process_body_def Let_def)
  then show ?thesis by (simp add: process_def fallback_not_Nil)
qed


theorem generation_failure_falls_back_witness:
  "status (snd (process offline_agent hello_request)) = SUCCESS \<and>
   error (snd (process offline_agent hello_request)) = None \<and>
   map_option mermaid_code (result (snd (process offline_agent hello_request))) =
     Some ''flowchart TD\<newline>    A[Hello]\<newline>''"
proof -
  have h1: "hello_request ''description'' = Some (PStr ''Hello'')" by (simp add: hello_request_def)
  have h2: "ai_model offline_agent = Some timing_out" by (simp add: offline_agent_def)
  have h3: "strip ''Hello'' \<noteq> []" by code_simp
  have h4: "resolve_mode (py_str (get_or hello_request ''level'' (default_level offline_agent))) =
      Inr \<lparr>mode_name = ''basic'', system_prompt = basic_system_prompt\<rparr>"
    by (simp add: hello_request_def get_or_def offline_agent_def resolve_mode_def strip_def
        lstrip_def rstrip_def lower_def lower_char_def cp_def is_space_def LEVEL_TO_MODE_def MODES_def)
  have h5: "timing_out (build_prompt \<lparr>mode_name = ''basic'', system_prompt = basic_system_prompt\<rparr>
      (strip ''Hello'')) = Inl (Raised ''Deadline exceeded'')" by (simp add: timing_out_def)
  have h6: "(\<not> save_to_file offline_agent \<and>
       \<not> wants (get_or hello_request ''output_format'' (PStr ''mermaid'')) [''png'', ''both'']) \<or>
      save_outputs offline_agent (generate_fallback_flowchart (strip ''Hello''))
        (get_or hello_request ''output_format'' (PStr ''mermaid''))
        (get_or hello_request ''filename'' PNone) = Inr []"
    by (simp add: offline_agent_def hello_request_def get_or_def wants_def)
  have f: "generate_fallback_flowchart (strip ''Hello'') = ''flowchart TD\<newline>    A[Hello]\<newline>''"
    by code_simp
  show ?thesis
    using generation_failure_falls_back [OF h1 h2 h3 h4 h5 h6] by (simp only: f)
qed

text \<open>
  Claim C2, as stated: whenever the text generation call raises, \<^verbatim>\<open>process\<close> returns a response
  with success status. It is false when an image is requested and rendering fails: the
  generation service times out, \<^verbatim>\<open>_generate_mermaid\<close> answers with the fallback diagram, then
  \<^verbatim>\<open>_save_outputs\<close> raises and \<^verbatim>\<open>process\<close> returns an error response.
\<close>

theorem generation_failure_counterexample:
  "generate_mermaid offline_agent (PStr ''Hello'') ''1'' = Inr ''flowchart TD\<newline>    A[Hello]\<newline>'' \<and>
   status (snd (process offline_agent hello_png_request)) = ERROR \<and>
   result (snd (process offline_agent hello_png_request)) = None \<and>
   error (snd (process offline_agent hello_png_request)) = Some ''Connection refused''"
  by code_simp

text \<open>
  Claim C10: \<^verbatim>\<open>process\<close> propagates no exception. Whatever the body of its \<^verbatim>\<open>try\<close> does, there is a
  response: when the body raises \<open>e\<close>, the response has status \<^verbatim>\<open>ERROR\<close>, result \<^verbatim>\<open>None\<close> and
  the text of \<open>e\<close> as its error (and \<^verbatim>\<open>self.status\<close> is \<^verbatim>\<open>ERROR\<close>); when it returns, the response
  is the success response. A missing description field, a missing API key, an empty
  description and a failure of the save step after the diagram was generated each make the
  body raise.
\<close>

theorem process_always_responds:
  "(\<forall>e. process_body a request = Inl e \<longrightarrow>
      snd (process a request) =
        \<lparr>agent_name = ''Flowchart Agent'', status = ERROR, result = None, error = Some (exn_str e),
         metadata = ErrorMeta request, timestamp = clock_iso a\<rparr> \<and>
      agent_status (fst (process a request)) = ERROR) \<and>
   (\<forall>res meta. process_body a request = Inr (res, meta) \<longrightarrow>
      snd (process a request) =
        \<lparr>agent_name = ''Flowchart Agent'', status = SUCCESS, result = Some res, error = None,
         metadata = meta, timestamp = clock_iso a\<rparr> \<and>
      agent_status (fst (process a request)) = SUCCESS) \<and>
   (request ''description'' = None \<longrightarrow>
      process_body a request = Inl (ValueError ''Missing required fields: description'')) \<and>
   (request ''description'' \<noteq> None \<and> ai_model a = None \<longrightarrow>
      process_body a request = Inl (ValueError ''Gemini API key required'')) \<and>
   (\<forall>d. request ''description'' = Some (PStr d) \<and> ai_model a \<noteq> None \<and> strip d = [] \<longrightarrow>
      process_body a request = Inl (ValueError ''Process description cannot be empty'')) \<and>
   (\<forall>d code e. request ''description'' = Some (PStr d) \<and>
      generate_mermaid a (PStr d) (py_str (get_or request ''level'' (default_level a))) = Inr code \<and>
      (save_to_file a \<or> wants (get_or request ''output_format'' (PStr ''mermaid'')) [''png'', ''both'']) \<and>
      save_outputs a code (get_or request ''output_format'' (PStr ''mermaid''))
        (get_or request ''filename'' PNone) = Inl e \<longrightarrow>
      process_body a request = Inl e)"
proof (intro conjI allI impI)
  fix e assume "process_body a request = Inl e"
  then show "snd (process a request) =
        \<lparr>agent_name = ''Flowchart Agent'', status = ERROR, result = None, error = Some (exn_str e),
         metadata = ErrorMeta request, timestamp = clock_iso a\<rparr>"
    and "agent_status (fst (process a request)) = ERROR"
    by (simp_all add: process_def)
next
  fix res meta assume "process_body a request = Inr (res, meta)"
  then show "snd (process a request) =
        \<lparr>agent_name = ''Flowchart Agent'', status = SUCCESS, result = Some res, error = None,
         metadata = meta, timestamp = clock_iso a\<rparr>"
    and "agent_status (fst (process a request)) = SUCCESS"
    by (simp_all add: process_def)
next
  assume "request ''description'' = None"
  then show "process_body a request = Inl (ValueError ''Missing required fields: description'')"
    by (simp add: process_body_def validate_request_def)
next
  assume "request ''description'' \<noteq> None \<and> ai_model a = None"
  then show "process_body a request = Inl (ValueError ''Gemini API key required'')"
    by (auto simp: process_body_def validate_request_def generate_mermaid_def Let_def)
next
  fix d assume "request ''description'' = Some (PStr d) \<and> ai_model a \<noteq> None \<and> strip d = []"
  then show "process_body a request = Inl (ValueError ''Process description cannot be empty'')"
    by (auto simp: process_body_def validate_request_def generate_mermaid_def Let_def get_or_def)
next
  fix d code e
  assume "request ''description'' = Some (PStr d) \<and>
      generate_mermaid a (PStr d) (py_str (get_or request ''level'' (default_level a))) = Inr code \<and>
      (save_to_file a \<or> wants (get_or request ''output_format'' (PStr ''mermaid'')) [''png'', ''both'']) \<and>
      save_outputs a code (get_or request ''output_format'' (PStr ''mermaid''))
        (get_or request ''filename'' PNone) = Inl e"
  then show "process_body a request = Inl e"
    by (auto simp: process_body_def validate_request_def Let_def get_or_def)
qed

theorem process_always_responds_witness:
  "snd (process keyless_agent Map.empty) =
     \<lparr>agent_name = ''Flowchart Agent'', status = ERROR, result = None,
      error = Some ''Missing required fields: description'',
      metadata = ErrorMeta Map.empty, timestamp = ''2026-01-01T12:00:00''\<rparr> \<and>
   error (snd (process keyless_agent hello_request)) = Some ''Gemini API key required''"
proof -
  note t = process_always_responds [of keyless_agent Map.empty]
  have b: "process_body keyless_agent Map.empty = Inl (ValueError ''Missing required fields: description'')"
    using t by simp
  have c: "clock_iso keyless_agent = ''2026-01-01T12:00:00''"
    by (simp add: keyless_agent_def offline_agent_def)
  from t b have 1: "snd (process keyless_agent Map.empty) =
     \<lparr>agent_name = ''Flowchart Agent'', status = ERROR, result = None,
      error = Some (exn_str (ValueError ''Missing required fields: description'')),
      metadata = ErrorMeta Map.empty, timestamp = clock_iso keyless_agent\<rparr>"
    by blast
  note u = process_always_responds [of keyless_agent hello_request]
  have "hello_request ''description'' \<noteq> None \<and> ai_model keyless_agent = None"
    by (simp add: hello_request_def keyless_agent_def)
  with u have b2: "process_body keyless_agent hello_request = Inl (ValueError ''Gemini API key required'')"
    by blast
  with u have 2: "snd (process keyless_agent hello_request) =
     \<lparr>agent_name = ''Flowchart Agent'', status = ERROR, result = None,
      error = Some (exn_str (ValueError ''Gemini API key required'')),
      metadata = ErrorMeta hello_request, timestamp = clock_iso keyless_agent\<rparr>"
    by blast
  show ?thesis using 1 2 c by simp
qed

subsection \<open>The diagram extractor\<close>

text \<open>\<^verbatim>\<open>sub in s\<close> is the contiguous-sublist relation; trimming, lower-casing, splitting into
  lines and removing a fence keep a text free of a keyword that has no line break in it.\<close>

lemma contains_sublist: "contains sub s \<longleftrightarrow> sublist sub s"
  by (induction s) (auto simp: sublist_Cons_right)

lemma sublist_trans: "sublist xs ys \<Longrightarrow> sublist ys zs \<Longrightarrow> sublist xs zs"
  using sublist_order.order_trans by blast

lemma sublist_rstrip: "sublist (rstrip s) s"
  using rstrip_prefix by blast

lemma sublist_strip: "sublist (strip s) s"
proof -
  have "sublist (strip s) (lstrip s)" unfolding strip_def by (rule sublist_rstrip)
  moreover have "sublist (lstrip s) s" unfolding lstrip_def by simp
  ultimately show ?thesis by (rule sublist_trans)
qed

lemma sublist_lower: "sublist xs ys \<Longrightarrow> sublist (lower xs) (lower ys)"
  unfolding lower_def by (rule map_mono_sublist)

lemma sublist_sep:
  assumes "sublist sub (a @ c # b)" and "c \<notin> set sub"
  shows "sublist sub a \<or> sublist sub b"
proof -
  from assms(1) consider "sublist sub a" | "sublist sub (c # b)"
    | xs1 xs2 where "sub = xs1 @ xs2" "suffix xs1 a" "prefix xs2 (c # b)"
    unfolding sublist_append by blast
  then show ?thesis
  proof cases
    case 1
    then show ?thesis by simp
  next
    case 2
    then have "prefix sub (c # b) \<or> sublist sub b" by (simp add: sublist_Cons_right)
    then show ?thesis
    proof
      assume "prefix sub (c # b)"
      with assms(2) have "sub = []" by (cases sub) auto
      then show ?thesis by simp
    next
      assume "sublist sub b"
      then show ?thesis by simp
    qed
  next
    case 3
    from 3(1,3) assms(2) have "xs2 = []" by (cases xs2) auto
    with 3(1,2) show ?thesis by auto
  qed
qed

lemma sublist_split_char:
  "l \<in> set (split_char d s) \<Longrightarrow> sublist l s"
proof (induction s arbitrary: l)
  case Nil
  then show ?case by simp
next
  case (Cons c s)
  obtain x xs where sp: "split_char d s = x # xs"
    using split_char_not_Nil[of d s] by (cases "split_char d s") auto
  show ?case
  proof (cases "c = d")
    case True
    with Cons.prems have "l = [] \<or> l \<in> set (split_char d s)" by auto
    then show ?thesis using Cons.IH by (auto simp: sublist_Cons_right)
  next
    case False
    with Cons.prems sp have "l = c # x \<or> l \<in> set xs" by auto
    then show ?thesis
    proof
      assume l: "l = c # x"
      have "prefix x s"
        using sp
      proof (induction s arbitrary: x xs)
        case Nil
        then show ?case by simp
      next
        case (Cons e s)
        obtain y ys where sp': "split_char d s = y # ys"
          using split_char_not_Nil[of d s] by (cases "split_char d s") auto
        show ?case
        proof (cases "e = d")
          case True
          with Cons.prems show ?thesis by simp
        next
          case False
          with Cons.prems sp' have "x = e # y" by simp
          moreover have "prefix y s" using Cons.IH[OF sp'] .
          ultimately show ?thesis by simp
        qed
      qed
      then have "prefix (c # x) (c # s)" by simp
      then show ?thesis using l by blast
    next
      assume "l \<in> set xs"
      then have "l \<in> set (split_char d s)" using sp by simp
      from Cons.IH[OF this] show ?thesis by (simp add: sublist_Cons_right)
    qed
  qed
qed

lemma sublist_join:
  assumes "sublist sub (join [c] xs)" and "c \<notin> set sub" and "sub \<noteq> []"
  shows "\<exists>x\<in>set xs. sublist sub x"
  using assms
proof (induction "[c]" xs rule: join.induct)
  case 1
  then show ?case by simp
next
  case (2 x)
  then show ?case by simp
next
  case (3 x y ys)
  from 3(2) have "sublist sub (x @ c # join [c] (y # ys))" by simp
  from sublist_sep[OF this 3(3)] show ?case using 3 by auto
qed

lemma lower_join: "lower (join [nl] xs) = join [nl] (map lower xs)"
proof (induction "[nl]" xs rule: join.induct)
  case 1
  then show ?case by (simp add: lower_def)
next
  case (2 x)
  then show ?case by simp
next
  case (3 x y ys)
  have "lower_char nl = nl" by (simp add: lower_char_def nl_def cp_def)
  with 3 show ?case by (simp add: lower_def)
qed

lemma sublist_splitlines_from:
  "l \<in> set (splitlines_from cur s) \<Longrightarrow> sublist l (rev cur @ s)"
proof (induction cur s arbitrary: l rule: splitlines_from.induct)
  case (1 cur)
  then show ?case by (auto split: if_splits)
next
  case (2 cur c)
  then show ?case by (auto split: if_splits)
next
  case (3 cur c d cs)
  show ?case
  proof (cases "c = CHR 0x0D \<and> d = CHR 0x0A")
    case True
    with 3(4) have "l = rev cur \<or> l \<in> set (splitlines_from [] cs)" by simp
    then show ?thesis
    proof
      assume "l = rev cur"
      then show ?thesis by simp
    next
      assume "l \<in> set (splitlines_from [] cs)"
      from 3(1)[OF True this] have "sublist l cs" by simp
      then have "sublist l ((rev cur @ [c, d]) @ cs)"
        by (metis sublist_append)
      then show ?thesis by simp
    qed
  next
    case False
    show ?thesis
    proof (cases "is_linebreak c")
      case True
      with False 3(4) have "l = rev cur \<or> l \<in> set (splitlines_from [] (d # cs))" by auto
      then show ?thesis
      proof
        assume "l = rev cur"
        then show ?thesis by simp
      next
        assume "l \<in> set (splitlines_from [] (d # cs))"
        from 3(2)[OF False True this] have "sublist l (d # cs)" by simp
        then have "sublist l ((rev cur @ [c]) @ d # cs)"
          by (metis sublist_append)
        then show ?thesis by simp
      qed
    next
      case nb: False
      with False 3(4) have "l \<in> set (splitlines_from (c # cur) (d # cs))" by auto
      from 3(3)[OF False nb this] show ?thesis by simp
    qed
  qed
qed

lemma sublist_splitlines: "l \<in> set (splitlines s) \<Longrightarrow> sublist l s"
  using sublist_splitlines_from[of l "[]" s] by (simp add: splitlines_def)

lemma set_drop_closing_fences: "set (drop_closing_fences ls) \<subseteq> set ls"
proof (induction ls rule: drop_closing_fences.induct)
  case 1
  then show ?case by (simp add: drop_closing_fences.simps(1))
next
  case (2 l ls)
  show ?case
  proof (cases "strip (last (l # ls)) = ''```''")
    case True
    have b: "set (butlast (l # ls)) \<subseteq> set (l # ls)" by (meson in_set_butlastD subsetI)
    have "drop_closing_fences (l # ls) = drop_closing_fences (butlast (l # ls))"
      using True by (metis drop_closing_fences.simps(2))
    moreover have "set (drop_closing_fences (butlast (l # ls))) \<subseteq> set (butlast (l # ls))"
      using 2 True by blast
    ultimately show ?thesis using b by (metis subset_trans)
  next
    case False
    have "drop_closing_fences (l # ls) = l # ls"
      using False by (metis drop_closing_fences.simps(2))
    then show ?thesis by (simp only: subset_refl)
  qed
qed


lemma no_keyword_sublist:
  "\<not> sublist ''flowchart'' (lower s) \<Longrightarrow> sublist t s \<Longrightarrow> \<not> sublist ''flowchart'' (lower t)"
  using sublist_lower sublist_trans by blast

lemma no_keyword_strip_fence:
  assumes "\<not> sublist ''flowchart'' (lower s)"
  shows "\<not> sublist ''flowchart'' (lower (strip_fence s))"
proof (cases "splitlines s")
  case Nil
  then have "strip_fence s = s" by (simp add: strip_fence_def)
  with assms show ?thesis by metis
next
  case (Cons l ls)
  let ?xs = "drop_closing_fences (if prefix ''```'' (strip l) then ls else l # ls)"
  have "set ?xs \<subseteq> set (if prefix ''```'' (strip l) then ls else l # ls)"
    by (rule set_drop_closing_fences)
  also have "\<dots> \<subseteq> set (splitlines s)" unfolding Cons by (cases "prefix ''```'' (strip l)") auto
  finally have sub: "set ?xs \<subseteq> set (splitlines s)" .
  have sf: "strip_fence s = join [nl] ?xs" by (simp only: strip_fence_def Cons list.case)
  show ?thesis
  proof
    assume "sublist ''flowchart'' (lower (strip_fence s))"
    then have a: "sublist ''flowchart'' (join [nl] (map lower ?xs))"
      by (simp only: sf lower_join)
    have b: "nl \<notin> set ''flowchart''" by (simp add: nl_def)
    have c: "''flowchart'' \<noteq> []" by simp
    from sublist_join[OF a b c] obtain x where x: "x \<in> set ?xs" "sublist ''flowchart'' (lower x)"
      by auto
    from x(1) sub have "sublist x s" using sublist_splitlines by blast
    from no_keyword_sublist[OF assms this] x(2) show False by blast
  qed
qed

lemma extract_loop_step_no_keyword:
  assumes "\<not> sublist ''flowchart'' (lower (strip l))"
  shows "extract_loop False found (l # ls) = extract_loop False found ls \<or>
         extract_loop False found (l # ls) = []"
proof -
  have nc: "\<not> contains ''flowchart'' (lower (strip l))" using assms by (simp add: contains_sublist)
  show ?thesis
    by (simp add: Let_def nc)
qed

lemma extract_loop_no_keyword:
  assumes "\<forall>l\<in>set ls. \<not> sublist ''flowchart'' (lower (strip l))"
  shows "extract_loop False found ls = []"
  using assms
proof (induction ls)
  case Nil
  show ?case by (simp only: extract_loop.simps)
next
  case (Cons l ls)
  then have "\<not> sublist ''flowchart'' (lower (strip l))"
    and "extract_loop False found ls = []" by simp_all
  with extract_loop_step_no_keyword[of l found ls] show ?case by metis
qed

lemma extract_no_keyword:
  assumes "\<not> contains ''flowchart'' (lower text)"
  shows "extract_mermaid text = []"
proof (cases "text = []")
  case True
  then show ?thesis by (simp add: extract_mermaid_def)
next
  case False
  let ?c0 = "strip text"
  let ?c1 = "strip (if prefix ''```'' ?c0 then strip_fence ?c0 else ?c0)"
  have nk: "\<not> sublist ''flowchart'' (lower text)" using assms by (simp add: contains_sublist)
  have nk0: "\<not> sublist ''flowchart'' (lower ?c0)"
    using no_keyword_sublist[OF nk sublist_strip] .
  have "\<not> sublist ''flowchart'' (lower (if prefix ''```'' ?c0 then strip_fence ?c0 else ?c0))"
    using nk0 no_keyword_strip_fence[OF nk0] by (cases "prefix ''```'' ?c0") simp_all
  from no_keyword_sublist[OF this sublist_strip]
  have nk1: "\<not> sublist ''flowchart'' (lower ?c1)" .
  have "\<forall>l\<in>set (split_char nl ?c1). \<not> sublist ''flowchart'' (lower (strip l))"
  proof
    fix l assume "l \<in> set (split_char nl ?c1)"
    then have "sublist l ?c1" by (rule sublist_split_char)
    with sublist_strip[of l] have "sublist (strip l) ?c1" by (rule sublist_trans)
    from no_keyword_sublist[OF nk1 this] show "\<not> sublist ''flowchart'' (lower (strip l))" .
  qed
  then have l0: "extract_loop False False (split_char nl ?c1) = []"
    by (rule extract_loop_no_keyword)
  have nc: "\<not> contains ''flowchart'' (lower ?c1)"
    using nk1 by (simp add: contains_sublist)
  show ?thesis
    using False l0 nc by (simp add: extract_mermaid_def Let_def)
qed


text \<open>
  Claim C9: for every raw response text in which \<^verbatim>\<open>flowchart\<close> occurs nowhere, in any case of
  the letters, the extractor returns the empty string; and the empty extraction routes to the
  fallback generator without an error: the body of the \<^verbatim>\<open>try\<close> of \<^verbatim>\<open>_generate_mermaid\<close> returns the
  fallback diagram (it does not raise), and so does \<^verbatim>\<open>_generate_mermaid\<close> for every agent,
  description and level with which the collaborator is reached and answers with that text.
\<close>

theorem no_keyword_routes_to_fallback:
  assumes "\<not> contains ''flowchart'' (lower text)"
  shows "extract_mermaid text = [] \<and>
         (\<forall>model prompt description. model prompt = Inr text \<longrightarrow>
            generate_body model prompt description = Inr (generate_fallback_flowchart description)) \<and>
         (\<forall>a model d lvl mode. ai_model a = Some model \<and> strip d \<noteq> [] \<and>
            resolve_mode lvl = Inr mode \<and> model (build_prompt mode (strip d)) = Inr text \<longrightarrow>
            generate_mermaid a (PStr d) lvl = Inr (generate_fallback_flowchart (strip d)))"
proof -
  have e: "extract_mermaid text = []" using assms by (rule extract_no_keyword)
  have b: "generate_body model prompt description = Inr (generate_fallback_flowchart description)"
    if "model prompt = Inr text" for model prompt description
    using that e by (simp add: generate_body_def)
  have g: "generate_mermaid a (PStr d) lvl = Inr (generate_fallback_flowchart (strip d))"
    if "ai_model a = Some model \<and> strip d \<noteq> [] \<and> resolve_mode lvl = Inr mode \<and>
        model (build_prompt mode (strip d)) = Inr text" for a model d lvl mode
    using that b[of model "build_prompt mode (strip d)" "strip d"]
    by (simp add: generate_mermaid_def)
  show ?thesis using e b g by blast
qed

theorem no_keyword_routes_to_fallback_witness:
  "extract_mermaid ''Sorry, I cannot draw that chart.'' = [] \<and>
   generate_body apologising ''draw'' ''Hello'' = Inr ''flowchart TD\<newline>    A[Hello]\<newline>''"
proof -
  have h: "\<not> contains ''flowchart'' (lower ''Sorry, I cannot draw that chart.'')" by code_simp
  have m: "apologising ''draw'' = Inr ''Sorry, I cannot draw that chart.''"
    by (simp add: apologising_def)
  have f: "generate_fallback_flowchart ''Hello'' = ''flowchart TD\<newline>    A[Hello]\<newline>''"
    by code_simp
  note t = no_keyword_routes_to_fallback [OF h]
  from t have 1: "extract_mermaid ''Sorry, I cannot draw that chart.'' = []" by (rule conjunct1)
  from t m have "generate_body apologising ''draw'' ''Hello'' = Inr (generate_fallback_flowchart ''Hello'')"
    by blast
  then have 2: "generate_body apologising ''draw'' ''Hello'' = Inr ''flowchart TD\<newline>    A[Hello]\<newline>''"
    by (simp only: f)
  from 1 2 show ?thesis by (rule conjI)
qed

end
